theory Spec2Isabelle
  imports Complex_Main
begin

section \<open>Numbers and vectors\<close>

text \<open>
  The program of \<^verbatim>\<open>ray.cpp\<close> computes with \<^verbatim>\<open>float\<close>. The model computes with
  the real numbers: rounding, overflow and the propagation of NaN are left out. The two
  places where a \<^verbatim>\<open>float\<close> of the program is not a real number are written out.
  The constant \<^verbatim>\<open>INFINITY\<close>, which the nearest-hit search starts from, is a value of
  its own of the type \<open>xfloat\<close> (it is the constant of \<^verbatim>\<open>cmath\<close>: the model
  follows the platforms for which the file does not redefine it). The square root of a
  negative number, which the program computes as NaN, is the error \<open>SqrtOfNegative\<close>
  of \<open>trace\<close>.
\<close>

datatype xfloat = Fin real | PInf

text \<open>The comparison \<^verbatim>\<open>a < b\<close> on floats that may be \<^verbatim>\<open>INFINITY\<close>.\<close>

fun xless :: "xfloat \<Rightarrow> xfloat \<Rightarrow> bool" where
  "xless (Fin a) (Fin b) = (a < b)"
| "xless (Fin a) PInf = True"
| "xless PInf b = False"

text \<open>
  Modelled from the spec: the header \<^verbatim>\<open>vec3.h\<close> (the class template \<^verbatim>\<open>Vec3\<close>) is
  not among the sources. The spec describes it as a 3-component real-valued tuple
  (x, y, z) with addition, subtraction, scalar and component-wise multiplication, dot
  product, magnitude and a normalize operation. The components are named \<open>vx\<close>,
  \<open>vy\<close>, \<open>vz\<close> here, so that \<open>x\<close>, \<open>y\<close>, \<open>z\<close> stay variables.
\<close>

datatype vec3 = Vec3 (vx: real) (vy: real) (vz: real)

text \<open>
  Modelled from the spec: the constructor \<^verbatim>\<open>Vec3f(c)\<close> from one scalar, which gives
  every component the value \<open>c\<close> (the background colour \<^verbatim>\<open>Vec3f(2)\<close> is "a color
  whose components equal 2"); it is also the conversion in \<^verbatim>\<open>Vec3f v = 0\<close>.
\<close>

definition Vec3f :: "real \<Rightarrow> vec3" where
  "Vec3f c = Vec3 c c c"

text \<open>
  Modelled from the spec: the operators \<^verbatim>\<open>+\<close>, \<^verbatim>\<open>-\<close> (binary and unary) and
  \<^verbatim>\<open>*\<close> between two vectors work component by component; \<open>0\<close> is \<^verbatim>\<open>Vec3f(0)\<close>.
  Over the reals the addition is associative and commutative with the unit \<open>0\<close>, so
  that sums of vectors over a list are available.
\<close>

instantiation vec3 :: "{comm_monoid_add, minus, uminus, times}"
begin

definition zero_vec3 :: vec3 where
  "zero_vec3 = Vec3 0 0 0"

definition plus_vec3 :: "vec3 \<Rightarrow> vec3 \<Rightarrow> vec3" where
  "plus_vec3 a b = Vec3 (vx a + vx b) (vy a + vy b) (vz a + vz b)"

definition minus_vec3 :: "vec3 \<Rightarrow> vec3 \<Rightarrow> vec3" where
  "minus_vec3 a b = Vec3 (vx a - vx b) (vy a - vy b) (vz a - vz b)"

definition uminus_vec3 :: "vec3 \<Rightarrow> vec3" where
  "uminus_vec3 a = Vec3 (- vx a) (- vy a) (- vz a)"

definition times_vec3 :: "vec3 \<Rightarrow> vec3 \<Rightarrow> vec3" where
  "times_vec3 a b = Vec3 (vx a * vx b) (vy a * vy b) (vz a * vz b)"

instance
proof
  fix a b c :: vec3
  show "a + b + c = a + (b + c)"
    by (simp add: plus_vec3_def)
  show "a + b = b + a"
    by (simp add: plus_vec3_def)
  show "0 + a = a"
    by (simp add: plus_vec3_def zero_vec3_def)
qed

end

text \<open>Modelled from the spec: \<^verbatim>\<open>v * f\<close>, a vector times a scalar.\<close>

definition smul :: "vec3 \<Rightarrow> real \<Rightarrow> vec3" where
  "smul v f = Vec3 (vx v * f) (vy v * f) (vz v * f)"

text \<open>Modelled from the spec: \<^verbatim>\<open>a.dot(b)\<close>, the dot product.\<close>

definition dot :: "vec3 \<Rightarrow> vec3 \<Rightarrow> real" where
  "dot a b = vx a * vx b + vy a * vy b + vz a * vz b"

text \<open>
  Modelled from the spec: \<^verbatim>\<open>v.normalize()\<close>, which "mutates to unit length": every
  component is divided by the magnitude. The spec leaves the zero vector to the caller
  (a division by zero, for a sphere of radius 0 or a light centred at the hit point);
  the model's value there is the zero vector.
\<close>

definition normalize_vec :: "vec3 \<Rightarrow> vec3" where
  "normalize_vec v =
     (let len = sqrt (dot v v) in Vec3 (vx v / len) (vy v / len) (vz v / len))"

section \<open>Spheres and the intersection primitive\<close>

text \<open>The class \<^verbatim>\<open>Sphere\<close>: its data members, in the order of the source.\<close>

record Sphere =
  center :: vec3
  radius :: real
  radius2 :: real
  surfaceColor :: vec3
  emissionColor :: vec3
  transparency :: real
  reflection :: real

text \<open>
  The constructor \<^verbatim>\<open>Sphere(c, r, sc, refl, transp, ec)\<close>: \<open>radius2\<close> is \<open>r * r\<close>.
\<close>

definition new_Sphere :: "vec3 \<Rightarrow> real \<Rightarrow> vec3 \<Rightarrow> real \<Rightarrow> real \<Rightarrow> vec3 \<Rightarrow> Sphere" where
  "new_Sphere c r sc rf tp ec =
     \<lparr> center = c, radius = r, radius2 = r * r, surfaceColor = sc, emissionColor = ec,
       transparency = tp, reflection = rf \<rparr>"

text \<open>
  \<^verbatim>\<open>Sphere::intersect\<close>. The out-parameters \<^verbatim>\<open>t0\<close> and \<^verbatim>\<open>t1\<close> are passed in
  with the values the caller's variables hold, and returned with the values they hold
  after the call, next to the result.
\<close>

definition intersect ::
  "Sphere \<Rightarrow> vec3 \<Rightarrow> vec3 \<Rightarrow> xfloat \<Rightarrow> xfloat \<Rightarrow> bool \<times> xfloat \<times> xfloat" where
  "intersect s rayorig raydir t0 t1 =
     (let l = center s - rayorig;
          tca = dot l raydir
      in if tca < 0 then (False, t0, t1)
         else
           let d2 = dot l l - tca * tca
           in if d2 > radius2 s then (False, t0, t1)
              else
                let thc = sqrt (radius2 s - d2)
                in (True, Fin (tca - thc), Fin (tca + thc)))"

section \<open>The tracer\<close>

text \<open>\<^verbatim>\<open>#define MAX_RAY_DEPTH 5\<close>\<close>

definition MAX_RAY_DEPTH :: int where
  "MAX_RAY_DEPTH = 5"

text \<open>\<^verbatim>\<open>mix(a, b, mix)\<close>\<close>

definition mix :: "real \<Rightarrow> real \<Rightarrow> real \<Rightarrow> real" where
  "mix a b m = b * m + a * (1 - m)"

text \<open>
  The nearest-hit search of \<^verbatim>\<open>trace\<close> (lines 77 to 89). Its state is the pair of the
  variables \<^verbatim>\<open>tnear\<close> and \<^verbatim>\<open>sphere\<close>; the pointer \<^verbatim>\<open>&spheres[i]\<close> is the index
  \<open>Some i\<close> and \<^verbatim>\<open>NULL\<close> is \<open>None\<close>. \<open>nearest_step\<close> is the body of the loop at
  index \<open>i\<close>, where \<^verbatim>\<open>t0\<close> and \<^verbatim>\<open>t1\<close> start as \<^verbatim>\<open>INFINITY\<close>;
  \<open>nearest_loop\<close> is the loop from index \<open>i\<close> on. The index is a natural number:
  a scene is taken to have fewer spheres than \<^verbatim>\<open>unsigned\<close> has values.
\<close>

definition nearest_step ::
  "Sphere list \<Rightarrow> vec3 \<Rightarrow> vec3 \<Rightarrow> nat \<Rightarrow> xfloat \<times> nat option \<Rightarrow> xfloat \<times> nat option" where
  "nearest_step spheres rayorig raydir i st =
     (case st of (tnear, sphere) \<Rightarrow>
        (case intersect (spheres ! i) rayorig raydir PInf PInf of (hit, t0, t1) \<Rightarrow>
           if hit then
             (let t0 = (if xless t0 (Fin 0) then t1 else t0)
              in if xless t0 tnear then (t0, Some i) else (tnear, sphere))
           else (tnear, sphere)))"

function nearest_loop ::
  "Sphere list \<Rightarrow> vec3 \<Rightarrow> vec3 \<Rightarrow> nat \<Rightarrow> xfloat \<times> nat option \<Rightarrow> xfloat \<times> nat option" where
  "nearest_loop spheres rayorig raydir i st =
     (if i < length spheres
      then nearest_loop spheres rayorig raydir (Suc i) (nearest_step spheres rayorig raydir i st)
      else st)"
  by pat_completeness auto
termination
  by (relation "measure (\<lambda>(spheres, rayorig, raydir, i, st). length spheres - i)") auto

declare nearest_loop.simps [simp del]

text \<open>
  The locals \<^verbatim>\<open>float t0, t1;\<close> of the shadow test (line 142) are not initialised and
  never read: \<^verbatim>\<open>intersect\<close> only writes them. The model passes \<open>indeterminate\<close>
  for them; the result of \<open>intersect\<close> does not depend on it (lemma
  \<open>intersect_hit_indep\<close>).
\<close>

definition indeterminate :: xfloat where
  "indeterminate = Fin 0"

text \<open>
  The shadow test (lines 140 to 149): the loop over \<open>j\<close> from index \<open>j\<close> on, for the
  light \<open>i\<close>. It returns the value of \<^verbatim>\<open>transmission\<close> after the loop; the
  \<^verbatim>\<open>break\<close> is the branch that returns at once.
\<close>

function shadow_loop ::
  "Sphere list \<Rightarrow> vec3 \<Rightarrow> vec3 \<Rightarrow> nat \<Rightarrow> nat \<Rightarrow> vec3 \<Rightarrow> vec3" where
  "shadow_loop spheres shadoworig lightDirection i j transmission =
     (if j < length spheres
      then
        (if i \<noteq> j \<and>
            fst (intersect (spheres ! j) shadoworig lightDirection indeterminate indeterminate)
         then 0
         else shadow_loop spheres shadoworig lightDirection i (Suc j) transmission)
      else transmission)"
  by pat_completeness auto
termination
  by (relation "measure (\<lambda>(spheres, shadoworig, lightDirection, i, j, transmission).
        length spheres - j)") auto

declare shadow_loop.simps [simp del]

text \<open>
  The diffuse branch (lines 134 to 154): the loop over \<open>i\<close> from index \<open>i\<close> on.
  \<open>hitsphere\<close> is \<^verbatim>\<open>*sphere\<close>, \<open>surfCol\<close> is the local \<^verbatim>\<open>surfaceColor\<close>, which the
  loop adds to.
\<close>

function light_loop ::
  "Sphere list \<Rightarrow> Sphere \<Rightarrow> vec3 \<Rightarrow> vec3 \<Rightarrow> real \<Rightarrow> nat \<Rightarrow> vec3 \<Rightarrow> vec3" where
  "light_loop spheres hitsphere phit nhit bias i surfCol =
     (if i < length spheres
      then
        (if vx (emissionColor (spheres ! i)) > 0
         then
           (let transmission = Vec3f 1;
                lightDirection = normalize_vec (center (spheres ! i) - phit);
                transmission =
                  shadow_loop spheres (phit + smul nhit bias) lightDirection i 0 transmission
            in light_loop spheres hitsphere phit nhit bias (Suc i)
                 (surfCol +
                  smul (surfaceColor hitsphere * transmission)
                    (max 0 (dot nhit lightDirection)) *
                  emissionColor (spheres ! i)))
         else light_loop spheres hitsphere phit nhit bias (Suc i) surfCol)
      else surfCol)"
  by pat_completeness auto
termination
  by (relation "measure (\<lambda>(spheres, hitsphere, phit, nhit, bias, i, surfCol).
        length spheres - i)") auto

declare light_loop.simps [simp del]

text \<open>
  What \<open>trace\<close> returns when the real numbers do not say what the program computes.
  \<open>SqrtOfNegative\<close>: \<^verbatim>\<open>sqrt(k)\<close> of line 123 with \<open>k < 0\<close>, a NaN of the program.
  \<open>InfiniteDistance\<close>: a sphere was selected while \<^verbatim>\<open>tnear\<close> is still
  \<^verbatim>\<open>INFINITY\<close>; this never happens (lemma \<open>trace_not_InfiniteDistance\<close>).
\<close>

datatype error = SqrtOfNegative | InfiniteDistance

text \<open>
  \<^verbatim>\<open>trace\<close>. The locals keep their names, but for \<^verbatim>\<open>surfaceColor\<close>,
  \<^verbatim>\<open>reflection\<close> and \<^verbatim>\<open>refraction\<close>, which are \<open>surfCol\<close>, \<open>reflCol\<close> and
  \<open>refrCol\<close> (the first two are also members of \<^verbatim>\<open>Sphere\<close>). The literals
  \<^verbatim>\<open>1e-4\<close>, \<^verbatim>\<open>0.1\<close> and \<^verbatim>\<open>1.1\<close> are the fractions they denote, and
  \<^verbatim>\<open>pow(a, 3)\<close> is the third power. \<^verbatim>\<open>if (sphere->transparency)\<close> tests that the
  number is not zero. \<^verbatim>\<open>depth + 1\<close> is computed only where \<open>depth < 5\<close>, so the
  \<^verbatim>\<open>int\<close> cannot overflow and \<open>depth\<close> is an integer.
\<close>

function trace :: "vec3 \<Rightarrow> vec3 \<Rightarrow> Sphere list \<Rightarrow> int \<Rightarrow> error + vec3" where
  "trace rayorig raydir spheres depth =
     (case nearest_loop spheres rayorig raydir 0 (PInf, None) of
        (tnear, None) \<Rightarrow> Inr (Vec3f 2)
      | (PInf, Some si) \<Rightarrow> Inl InfiniteDistance
      | (Fin tn, Some si) \<Rightarrow>
          (let sphere = spheres ! si;
               phit = rayorig + smul raydir tn;
               nhit = normalize_vec (phit - center sphere);
               bias = 1 / 10000;
               (nhit, inside) =
                 (if dot raydir nhit > 0 then (- nhit, True) else (nhit, False));
               surfCol =
                 (if (transparency sphere > 0 \<or> reflection sphere > 0) \<and>
                     depth < MAX_RAY_DEPTH
                  then
                    (let facingratio = - dot raydir nhit;
                         fresneleffect = mix ((1 - facingratio) ^ 3) 1 (1 / 10);
                         refldir =
                           normalize_vec (raydir - smul (smul nhit 2) (dot raydir nhit))
                     in case trace (phit + smul nhit bias) refldir spheres (depth + 1) of
                          Inl e \<Rightarrow> Inl e
                        | Inr reflCol \<Rightarrow>
                            (case
                               (if transparency sphere \<noteq> 0
                                then
                                  (let ior = 11 / 10;
                                       eta = (if inside then ior else 1 / ior);
                                       cosi = - dot nhit raydir;
                                       k = 1 - eta * eta * (1 - cosi * cosi)
                                   in if k < 0 then Inl SqrtOfNegative
                                      else
                                        (let refrdir =
                                               normalize_vec
                                                 (smul raydir eta +
                                                  smul nhit (eta * cosi - sqrt k))
                                         in trace (phit - smul nhit bias) refrdir spheres
                                              (depth + 1)))
                                else Inr 0)
                             of
                               Inl e \<Rightarrow> Inl e
                             | Inr refrCol \<Rightarrow>
                                 Inr ((smul reflCol fresneleffect +
                                       smul (smul refrCol (1 - fresneleffect))
                                         (transparency sphere)) *
                                      surfaceColor sphere)))
                  else Inr (light_loop spheres sphere phit nhit bias 0 0))
           in case surfCol of
                Inl e \<Rightarrow> Inl e
              | Inr c \<Rightarrow> Inr (c + emissionColor sphere)))"
  by pat_completeness auto
termination
  by (relation "measure (\<lambda>(rayorig, raydir, spheres, depth). nat (MAX_RAY_DEPTH - depth))")
     (auto simp: MAX_RAY_DEPTH_def)

declare trace.simps [simp del]

text \<open>
  The scene that \<^verbatim>\<open>main\<close> builds: five spheres and one light, in the order of the
  calls of \<^verbatim>\<open>push_back\<close>.
\<close>

definition main_spheres :: "Sphere list" where
  "main_spheres =
     [new_Sphere (Vec3 0 (- 10004) (- 20)) 10000 (Vec3 (2 / 10) (2 / 10) (2 / 10)) 0 0 0,
      new_Sphere (Vec3 0 0 (- 20)) 4 (Vec3 1 0 0) 1 (5 / 10) 0,
      new_Sphere (Vec3 5 (- 1) (- 15)) 2 (Vec3 0 1 0) 1 0 0,
      new_Sphere (Vec3 5 0 (- 25)) 3 (Vec3 1 1 0) 1 0 0,
      new_Sphere (Vec3 (- 55 / 10) 0 (- 15)) 3 (Vec3 0 1 1) 1 0 0,
      new_Sphere (Vec3 0 20 (- 30)) 3 (Vec3 0 0 0) 0 0 (Vec3f 5)]"

section \<open>Notions of the specification\<close>

text \<open>
  The definitions of this section are not translated from the source: they say, in the
  words of the specification, what the theorems below compare the program with.

  A sphere yields a valid hit for a ray when \<^verbatim>\<open>Sphere::intersect\<close> returns true.
\<close>

definition hits :: "Sphere \<Rightarrow> vec3 \<Rightarrow> vec3 \<Rightarrow> bool" where
  "hits s rayorig raydir = fst (intersect s rayorig raydir PInf PInf)"

text \<open>
  The effective distance of a sphere along a ray: "\<open>t0\<close>, or \<open>t1\<close> if \<open>t0\<close> is
  negative", with \<open>t0 = tca - thc\<close> and \<open>t1 = tca + thc\<close> as the specification of the
  intersection primitive gives them.
\<close>

definition effective_distance :: "Sphere \<Rightarrow> vec3 \<Rightarrow> vec3 \<Rightarrow> real" where
  "effective_distance s rayorig raydir =
     (let l = center s - rayorig;
          tca = dot l raydir;
          d2 = dot l l - tca * tca;
          thc = sqrt (radius2 s - d2);
          t0 = tca - thc;
          t1 = tca + thc
      in if t0 < 0 then t1 else t0)"

text \<open>
  The invariant of the nearest-hit search before the iteration at index \<open>i\<close>: either no
  sphere is selected, \<open>tnear\<close> is \<^verbatim>\<open>INFINITY\<close> and no sphere below \<open>i\<close> is hit; or the
  selected sphere \<open>k\<close> is hit, \<open>tnear\<close> is its effective distance, no hit sphere below
  \<open>i\<close> is nearer and every hit sphere before \<open>k\<close> is farther.
\<close>

definition nearest_inv ::
  "Sphere list \<Rightarrow> vec3 \<Rightarrow> vec3 \<Rightarrow> nat \<Rightarrow> xfloat \<times> nat option \<Rightarrow> bool" where
  "nearest_inv spheres rayorig raydir i st =
     (case snd st of
        None \<Rightarrow> fst st = PInf \<and> (\<forall>j<i. \<not> hits (spheres ! j) rayorig raydir)
      | Some k \<Rightarrow>
          k < i \<and> hits (spheres ! k) rayorig raydir \<and>
          fst st = Fin (effective_distance (spheres ! k) rayorig raydir) \<and>
          (\<forall>j<i. hits (spheres ! j) rayorig raydir \<longrightarrow>
             effective_distance (spheres ! k) rayorig raydir
               \<le> effective_distance (spheres ! j) rayorig raydir) \<and>
          (\<forall>j<k. hits (spheres ! j) rayorig raydir \<longrightarrow>
             effective_distance (spheres ! k) rayorig raydir
               < effective_distance (spheres ! j) rayorig raydir))"

text \<open>
  A distance that is not negative, or still the initial \<^verbatim>\<open>INFINITY\<close>.
\<close>

definition nonneg_or_infinity :: "xfloat \<Rightarrow> bool" where
  "nonneg_or_infinity t = (case t of Fin r \<Rightarrow> 0 \<le> r | PInf \<Rightarrow> True)"

text \<open>
  The function package derives from the definition of \<open>trace\<close> its call relation:
  \<open>trace_rel b a\<close> holds when the call of \<open>trace\<close> with the arguments \<open>a\<close> makes a
  recursive call with the arguments \<open>b\<close>. A chain of recursive calls is a list of
  arguments, each of which calls the next.
\<close>

fun call_chain :: "(vec3 \<times> vec3 \<times> Sphere list \<times> int) list \<Rightarrow> bool" where
  "call_chain (a # b # cs) = (trace_rel b a \<and> call_chain (b # cs))"
| "call_chain cs = True"

text \<open>
  The diffuse branch in the words of the specification. A light is a sphere whose
  emission colour has a positive red channel. The shadow ray of the light \<open>i\<close> is
  occluded when a sphere of the scene other than the light itself yields a valid hit for
  it; the transmission is then 0, and 1 otherwise. The term of the light \<open>i\<close> is
  \<open>surfaceColor * transmission * max 0 (normal \<cdot> lightDir) * emissionColor\<close>.
  \<open>diffuse_sum\<close> adds the terms of all the lights of the scene, \<open>diffuse_sum_others\<close>
  those of the lights other than the sphere \<open>si\<close>.
\<close>

definition shadowed :: "Sphere list \<Rightarrow> nat \<Rightarrow> vec3 \<Rightarrow> vec3 \<Rightarrow> bool" where
  "shadowed spheres i shadoworig lightDirection =
     (\<exists>j<length spheres. j \<noteq> i \<and> hits (spheres ! j) shadoworig lightDirection)"

definition is_light :: "Sphere \<Rightarrow> bool" where
  "is_light s = (vx (emissionColor s) > 0)"

definition light_term :: "Sphere list \<Rightarrow> Sphere \<Rightarrow> vec3 \<Rightarrow> vec3 \<Rightarrow> real \<Rightarrow> nat \<Rightarrow> vec3" where
  "light_term spheres hitsphere phit nhit bias i =
     (let lightDir = normalize_vec (center (spheres ! i) - phit);
          transmission =
            (if shadowed spheres i (phit + smul nhit bias) lightDir then 0 else 1 :: real)
      in smul (smul (surfaceColor hitsphere) transmission) (max 0 (dot nhit lightDir)) *
         emissionColor (spheres ! i))"

definition diffuse_sum :: "Sphere list \<Rightarrow> Sphere \<Rightarrow> vec3 \<Rightarrow> vec3 \<Rightarrow> real \<Rightarrow> vec3" where
  "diffuse_sum spheres hitsphere phit nhit bias =
     (\<Sum>i \<leftarrow> filter (\<lambda>i. is_light (spheres ! i)) [0..<length spheres].
        light_term spheres hitsphere phit nhit bias i)"

definition diffuse_sum_others ::
  "Sphere list \<Rightarrow> nat \<Rightarrow> Sphere \<Rightarrow> vec3 \<Rightarrow> vec3 \<Rightarrow> real \<Rightarrow> vec3" where
  "diffuse_sum_others spheres si hitsphere phit nhit bias =
     (\<Sum>i \<leftarrow> filter (\<lambda>i. i \<noteq> si \<and> is_light (spheres ! i)) [0..<length spheres].
        light_term spheres hitsphere phit nhit bias i)"

text \<open>
  The sphere of the example of total internal reflection: transparent, of radius 13,
  centred at the origin.
\<close>

definition glass_ball :: Sphere where
  "glass_ball = new_Sphere (Vec3 0 0 0) 13 (Vec3f 1) 0 (1 / 2) 0"

section \<open>Unfolding the loops and the tracer\<close>

lemma intersect_hit_indep:
  "fst (intersect s rayorig raydir a b) = fst (intersect s rayorig raydir a' b')"
  by (simp add: intersect_def Let_def)

lemma nearest_loop_done:
  "length spheres \<le> i \<Longrightarrow> nearest_loop spheres rayorig raydir i st = st"
  by (subst nearest_loop.simps) simp

lemma nearest_loop_step:
  "i < length spheres \<Longrightarrow>
   nearest_loop spheres rayorig raydir i st =
     nearest_loop spheres rayorig raydir (Suc i) (nearest_step spheres rayorig raydir i st)"
  by (subst nearest_loop.simps) simp

lemma shadow_loop_done:
  "length spheres \<le> j \<Longrightarrow>
   shadow_loop spheres shadoworig lightDirection i j transmission = transmission"
  by (subst shadow_loop.simps) simp

lemma shadow_loop_step:
  "j < length spheres \<Longrightarrow>
   shadow_loop spheres shadoworig lightDirection i j transmission =
     (if i \<noteq> j \<and>
         fst (intersect (spheres ! j) shadoworig lightDirection indeterminate indeterminate)
      then 0
      else shadow_loop spheres shadoworig lightDirection i (Suc j) transmission)"
  by (subst shadow_loop.simps) simp

lemma light_loop_done:
  "length spheres \<le> i \<Longrightarrow> light_loop spheres hitsphere phit nhit bias i surfCol = surfCol"
  by (subst light_loop.simps) simp

lemma light_loop_skip:
  "i < length spheres \<Longrightarrow> \<not> vx (emissionColor (spheres ! i)) > 0 \<Longrightarrow>
   light_loop spheres hitsphere phit nhit bias i surfCol =
     light_loop spheres hitsphere phit nhit bias (Suc i) surfCol"
  by (subst light_loop.simps) simp

lemma light_loop_light:
  "i < length spheres \<Longrightarrow> vx (emissionColor (spheres ! i)) > 0 \<Longrightarrow>
   light_loop spheres hitsphere phit nhit bias i surfCol =
     light_loop spheres hitsphere phit nhit bias (Suc i)
       (surfCol +
        smul (surfaceColor hitsphere *
              shadow_loop spheres (phit + smul nhit bias)
                (normalize_vec (center (spheres ! i) - phit)) i 0 (Vec3f 1))
          (max 0 (dot nhit (normalize_vec (center (spheres ! i) - phit)))) *
        emissionColor (spheres ! i))"
  by (subst light_loop.simps) (simp add: Let_def)

lemma trace_miss:
  "snd (nearest_loop spheres rayorig raydir 0 (PInf, None)) = None \<Longrightarrow>
   trace rayorig raydir spheres depth = Inr (Vec3f 2)"
  by (subst trace.simps) (auto split: prod.splits xfloat.splits option.splits)

lemma trace_diffuse:
  fixes rayorig raydir spheres depth tn si
  defines "sphere \<equiv> spheres ! si"
  defines "phit \<equiv> rayorig + smul raydir tn"
  defines "n \<equiv> normalize_vec (phit - center sphere)"
  defines "nhit \<equiv> (if dot raydir n > 0 then - n else n)"
  assumes hit: "nearest_loop spheres rayorig raydir 0 (PInf, None) = (Fin tn, Some si)"
  assumes br: "\<not> ((transparency sphere > 0 \<or> reflection sphere > 0) \<and> depth < MAX_RAY_DEPTH)"
  shows "trace rayorig raydir spheres depth =
         Inr (light_loop spheres sphere phit nhit (1 / 10000) 0 0 + emissionColor sphere)"
proof -
  have br': "\<not> ((transparency (spheres ! si) > 0 \<or> reflection (spheres ! si) > 0) \<and> depth < MAX_RAY_DEPTH)"
    using br by (simp add: sphere_def)
  show ?thesis
    unfolding sphere_def phit_def n_def nhit_def
    apply (subst trace.simps)
    apply (simp only: hit prod.case xfloat.case option.case Let_def if_not_P[OF br'])
    apply (simp split: if_splits)
    done
qed

lemma trace_specular:
  fixes rayorig raydir spheres depth tn si
  defines "sphere \<equiv> spheres ! si"
  defines "phit \<equiv> rayorig + smul raydir tn"
  defines "n \<equiv> normalize_vec (phit - center sphere)"
  defines "inside \<equiv> dot raydir n > 0"
  defines "nhit \<equiv> (if inside then - n else n)"
  defines "fresneleffect \<equiv> mix ((1 - (- dot raydir nhit)) ^ 3) 1 (1 / 10)"
  defines "refldir \<equiv> normalize_vec (raydir - smul (smul nhit 2) (dot raydir nhit))"
  defines "eta \<equiv> (if inside then 11 / 10 else 1 / (11 / 10))"
  defines "cosi \<equiv> - dot nhit raydir"
  defines "k \<equiv> 1 - eta * eta * (1 - cosi * cosi)"
  defines "refrdir \<equiv> normalize_vec (smul raydir eta + smul nhit (eta * cosi - sqrt k))"
  assumes hit: "nearest_loop spheres rayorig raydir 0 (PInf, None) = (Fin tn, Some si)"
  assumes br: "(transparency sphere > 0 \<or> reflection sphere > 0) \<and> depth < MAX_RAY_DEPTH"
  shows "trace rayorig raydir spheres depth =
     (case trace (phit + smul nhit (1 / 10000)) refldir spheres (depth + 1) of
        Inl e \<Rightarrow> Inl e
      | Inr reflCol \<Rightarrow>
          (case (if transparency sphere \<noteq> 0
                 then (if k < 0 then Inl SqrtOfNegative
                       else trace (phit - smul nhit (1 / 10000)) refrdir spheres (depth + 1))
                 else Inr 0) of
             Inl e \<Rightarrow> Inl e
           | Inr refrCol \<Rightarrow>
               Inr ((smul reflCol fresneleffect +
                     smul (smul refrCol (1 - fresneleffect)) (transparency sphere)) *
                    surfaceColor sphere + emissionColor sphere)))"
  using br
  unfolding sphere_def phit_def n_def nhit_def inside_def fresneleffect_def refldir_def
    eta_def cosi_def k_def refrdir_def
  by (subst trace.simps) (simp add: hit Let_def split: sum.splits)

section \<open>Evaluation on concrete scenes\<close>

lemmas vec3_eval =
  plus_vec3_def minus_vec3_def uminus_vec3_def times_vec3_def zero_vec3_def
  smul_def dot_def normalize_vec_def Vec3f_def

lemmas scene_eval =
  nearest_loop_step nearest_loop_done nearest_step_def intersect_def new_Sphere_def Let_def

lemmas light_eval =
  light_loop_light light_loop_skip light_loop_done shadow_loop_step shadow_loop_done

lemma sqrt_9: "sqrt 9 = 3"
proof -
  have "sqrt 9 = sqrt (3\<^sup>2)" by simp
  also have "\<dots> = \<bar>3\<bar>" by (rule real_sqrt_abs)
  finally show ?thesis by simp
qed

lemma sqrt_25: "sqrt 25 = 5"
proof -
  have "sqrt 25 = sqrt (5\<^sup>2)" by simp
  also have "\<dots> = \<bar>5\<bar>" by (rule real_sqrt_abs)
  finally show ?thesis by simp
qed

lemma sqrt_81: "sqrt 81 = 9"
proof -
  have "sqrt 81 = sqrt (9\<^sup>2)" by simp
  also have "\<dots> = \<bar>9\<bar>" by (rule real_sqrt_abs)
  finally show ?thesis by simp
qed

lemma sqrt_169: "sqrt 169 = 13"
proof -
  have "sqrt 169 = sqrt (13\<^sup>2)" by simp
  also have "\<dots> = \<bar>13\<bar>" by (rule real_sqrt_abs)
  finally show ?thesis by simp
qed

section \<open>The intersection primitive\<close>

text \<open>
  C10. When \<^verbatim>\<open>Sphere::intersect\<close> returns false, the out-parameters \<open>t0\<close> and
  \<open>t1\<close> hold the values they held before the call, for every ray and sphere: they are
  written only on a true return.
\<close>

theorem intersect_false_frame:
  "\<not> fst (intersect s rayorig raydir t0 t1) \<Longrightarrow>
     intersect s rayorig raydir t0 t1 = (False, t0, t1)"
  by (simp add: intersect_def Let_def split: if_splits)

theorem intersect_false_frame_witness:
  "\<not> fst (intersect (new_Sphere 0 1 0 0 0 0) (Vec3 0 0 5) (Vec3 0 0 1) (Fin 7) PInf) \<and>
   intersect (new_Sphere 0 1 0 0 0 0) (Vec3 0 0 5) (Vec3 0 0 1) (Fin 7) PInf
     = (False, Fin 7, PInf)"
proof -
  have miss: "\<not> fst (intersect (new_Sphere 0 1 0 0 0 0) (Vec3 0 0 5) (Vec3 0 0 1) (Fin 7) PInf)"
    by (simp add: intersect_def new_Sphere_def dot_def minus_vec3_def zero_vec3_def)
  from intersect_false_frame [OF miss] miss show ?thesis by simp
qed

text \<open>
  C1. For every ray and sphere, \<^verbatim>\<open>Sphere::intersect\<close> reports no hit if
  \<open>tca = (center - origin) \<cdot> direction < 0\<close> or if \<open>d2 = l \<cdot> l - tca\<^sup>2\<close> exceeds
  \<open>radius2\<close>; otherwise it reports a hit with \<open>t0 = tca - thc\<close> and \<open>t1 = tca + thc\<close>,
  where \<open>thc = sqrt (radius2 - d2)\<close>, and then \<open>t0 \<le> t1\<close>. For a sphere centred at the
  origin with a radius \<open>r \<ge> 0\<close> and the ray from \<open>(0, 0, 5)\<close> toward \<open>(0, 0, -1)\<close> it
  reports a hit with \<open>t0 = 5 - r\<close> and \<open>t1 = 5 + r\<close>.
\<close>

theorem intersect_geometric:
  fixes s rayorig raydir a b r sc rf tp ec
  defines "l \<equiv> center s - rayorig"
  defines "tca \<equiv> dot l raydir"
  defines "d2 \<equiv> dot l l - tca * tca"
  defines "thc \<equiv> sqrt (radius2 s - d2)"
  shows "(tca < 0 \<or> d2 > radius2 s \<longrightarrow> \<not> fst (intersect s rayorig raydir a b)) \<and>
         (\<not> (tca < 0 \<or> d2 > radius2 s) \<longrightarrow>
            intersect s rayorig raydir a b = (True, Fin (tca - thc), Fin (tca + thc)) \<and>
            tca - thc \<le> tca + thc) \<and>
         (0 \<le> r \<longrightarrow>
            intersect (new_Sphere (Vec3 0 0 0) r sc rf tp ec) (Vec3 0 0 5) (Vec3 0 0 (- 1)) a b
              = (True, Fin (5 - r), Fin (5 + r)))"
proof (intro conjI impI)
  assume "tca < 0 \<or> d2 > radius2 s"
  then show "\<not> fst (intersect s rayorig raydir a b)"
    by (auto simp: intersect_def Let_def tca_def d2_def l_def)
next
  assume h: "\<not> (tca < 0 \<or> d2 > radius2 s)"
  then show "intersect s rayorig raydir a b = (True, Fin (tca - thc), Fin (tca + thc))"
    by (simp add: intersect_def Let_def tca_def d2_def l_def thc_def)
  from h have "0 \<le> radius2 s - d2" by simp
  then have "0 \<le> thc" by (simp add: thc_def)
  then show "tca - thc \<le> tca + thc" by simp
next
  assume "0 \<le> r"
  then show "intersect (new_Sphere (Vec3 0 0 0) r sc rf tp ec) (Vec3 0 0 5) (Vec3 0 0 (- 1)) a b
              = (True, Fin (5 - r), Fin (5 + r))"
    by (simp add: intersect_def new_Sphere_def dot_def minus_vec3_def Let_def)
qed

theorem intersect_geometric_witness:
  "intersect (new_Sphere (Vec3 0 0 0) 2 0 0 0 0) (Vec3 0 0 5) (Vec3 0 0 (- 1)) PInf PInf
     = (True, Fin 3, Fin 7) \<and>
   \<not> fst (intersect (new_Sphere (Vec3 0 0 0) 2 0 0 0 0) (Vec3 0 0 5) (Vec3 0 0 1) PInf PInf) \<and>
   \<not> fst (intersect (new_Sphere (Vec3 0 0 0) 2 0 0 0 0) (Vec3 3 0 5) (Vec3 0 0 (- 1)) PInf PInf)"
proof -
  have "intersect (new_Sphere (Vec3 0 0 0) 2 0 0 0 0) (Vec3 0 0 5) (Vec3 0 0 (- 1)) PInf PInf
     = (True, Fin 3, Fin 7)"
    using intersect_geometric
            [where r = 2 and a = PInf and b = PInf and sc = 0 and rf = 0 and tp = 0 and ec = 0]
    by simp
  moreover
  have "\<not> fst (intersect (new_Sphere (Vec3 0 0 0) 2 0 0 0 0) (Vec3 0 0 5) (Vec3 0 0 1) PInf PInf)"
    using intersect_geometric
            [where s = "new_Sphere (Vec3 0 0 0) 2 0 0 0 0" and rayorig = "Vec3 0 0 5"
               and raydir = "Vec3 0 0 1" and a = PInf and b = PInf]
    by (simp add: new_Sphere_def dot_def minus_vec3_def)
  moreover
  have "\<not> fst (intersect (new_Sphere (Vec3 0 0 0) 2 0 0 0 0) (Vec3 3 0 5) (Vec3 0 0 (- 1)) PInf PInf)"
    using intersect_geometric
            [where s = "new_Sphere (Vec3 0 0 0) 2 0 0 0 0" and rayorig = "Vec3 3 0 5"
               and raydir = "Vec3 0 0 (- 1)" and a = PInf and b = PInf]
    by (simp add: new_Sphere_def dot_def minus_vec3_def)
  ultimately show ?thesis by simp
qed

section \<open>The nearest-hit search\<close>

lemma nearest_step_miss:
  "\<not> hits (spheres ! i) rayorig raydir \<Longrightarrow> nearest_step spheres rayorig raydir i st = st"
  by (cases st) (auto simp: nearest_step_def hits_def split: prod.splits)

lemma nearest_step_hit:
  "hits (spheres ! i) rayorig raydir \<Longrightarrow>
   nearest_step spheres rayorig raydir i (tnear, sp) =
     (if xless (Fin (effective_distance (spheres ! i) rayorig raydir)) tnear
      then (Fin (effective_distance (spheres ! i) rayorig raydir), Some i)
      else (tnear, sp))"
  by (auto simp: nearest_step_def hits_def effective_distance_def intersect_def Let_def
           split: prod.splits if_splits)

lemma nearest_inv_step:
  assumes "nearest_inv spheres rayorig raydir i st"
  shows "nearest_inv spheres rayorig raydir (Suc i) (nearest_step spheres rayorig raydir i st)"
proof (cases "hits (spheres ! i) rayorig raydir")
  case False
  with assms show ?thesis
    by (auto simp: nearest_step_miss nearest_inv_def less_Suc_eq split: option.splits)
next
  case True
  obtain tnear sp where st: "st = (tnear, sp)" by (cases st)
  show ?thesis
  proof (cases sp)
    case None
    with assms True st show ?thesis
      by (auto simp: nearest_step_hit nearest_inv_def less_Suc_eq)
  next
    case (Some k)
    with assms True st show ?thesis
      by (auto simp: nearest_step_hit nearest_inv_def less_Suc_eq)
  qed
qed

lemma nearest_inv_loop:
  "nearest_inv spheres rayorig raydir i st \<Longrightarrow> i \<le> length spheres \<Longrightarrow>
   nearest_inv spheres rayorig raydir (length spheres) (nearest_loop spheres rayorig raydir i st)"
proof (induction spheres rayorig raydir i st rule: nearest_loop.induct)
  case (1 spheres rayorig raydir i st)
  show ?case
  proof (cases "i < length spheres")
    case True
    with 1 show ?thesis
      by (simp add: nearest_loop_step nearest_inv_step)
  next
    case False
    with 1 show ?thesis by (simp add: nearest_loop_done)
  qed
qed

lemma nearest_inv_init: "nearest_inv spheres rayorig raydir 0 (PInf, None)"
  by (simp add: nearest_inv_def)

lemma nearest_inv_result:
  "nearest_inv spheres rayorig raydir (length spheres)
     (nearest_loop spheres rayorig raydir 0 (PInf, None))"
  by (rule nearest_inv_loop [OF nearest_inv_init]) simp

text \<open>
  C2. The nearest-hit search of \<^verbatim>\<open>trace\<close> selects a sphere of least effective distance
  among the spheres that are hit, and of these the first in the scene: every hit sphere
  before the selected one is farther. It selects no sphere exactly when no sphere is
  hit; then, and so for the empty scene, \<^verbatim>\<open>trace\<close> returns the background colour,
  whose components are all 2, whatever the depth and the direction.
\<close>

theorem nearest_hit_search:
  fixes spheres rayorig raydir depth
  defines "eff \<equiv> \<lambda>i. effective_distance (spheres ! i) rayorig raydir"
  defines "hit \<equiv> \<lambda>i. hits (spheres ! i) rayorig raydir"
  shows
    "(case nearest_loop spheres rayorig raydir 0 (PInf, None) of
        (tnear, None) \<Rightarrow> tnear = PInf \<and> (\<forall>i<length spheres. \<not> hit i)
      | (tnear, Some i) \<Rightarrow>
          i < length spheres \<and> hit i \<and> tnear = Fin (eff i) \<and>
          (\<forall>j<length spheres. hit j \<longrightarrow> eff i \<le> eff j) \<and>
          (\<forall>j<i. hit j \<longrightarrow> eff i < eff j)) \<and>
     ((\<forall>i<length spheres. \<not> hit i) \<longrightarrow>
        trace rayorig raydir spheres depth = Inr (Vec3 2 2 2)) \<and>
     trace rayorig raydir [] depth = Inr (Vec3 2 2 2)"
proof -
  obtain tnear sp where res: "nearest_loop spheres rayorig raydir 0 (PInf, None) = (tnear, sp)"
    by (cases "nearest_loop spheres rayorig raydir 0 (PInf, None)")
  have inv: "nearest_inv spheres rayorig raydir (length spheres) (tnear, sp)"
    using nearest_inv_result [of spheres rayorig raydir] by (simp add: res)
  have search: "(case (tnear, sp) of
        (tnear, None) \<Rightarrow> tnear = PInf \<and> (\<forall>i<length spheres. \<not> hit i)
      | (tnear, Some i) \<Rightarrow>
          i < length spheres \<and> hit i \<and> tnear = Fin (eff i) \<and>
          (\<forall>j<length spheres. hit j \<longrightarrow> eff i \<le> eff j) \<and>
          (\<forall>j<i. hit j \<longrightarrow> eff i < eff j))"
    using inv by (auto simp: nearest_inv_def eff_def hit_def split: option.splits)
  have none: "trace rayorig raydir spheres depth = Inr (Vec3 2 2 2)"
    if "\<forall>i<length spheres. \<not> hit i"
  proof -
    from search that have "sp = None" by (cases sp) auto
    then show ?thesis by (simp add: trace_miss res Vec3f_def)
  qed
  have "trace rayorig raydir [] depth = Inr (Vec3 2 2 2)"
    by (simp add: trace_miss nearest_loop_done Vec3f_def)
  with search none show ?thesis by (simp add: res)
qed

theorem nearest_hit_search_witness:
  "nearest_loop
     [new_Sphere (Vec3 0 0 0) 1 0 0 0 0, new_Sphere (Vec3 0 0 3) 1 0 0 0 0,
      new_Sphere (Vec3 0 9 0) 1 0 0 0 0, new_Sphere (Vec3 0 0 3) 1 0 0 0 0]
     (Vec3 0 0 5) (Vec3 0 0 (- 1)) 0 (PInf, None) = (Fin 1, Some 1) \<and>
   effective_distance (new_Sphere (Vec3 0 0 0) 1 0 0 0 0) (Vec3 0 0 5) (Vec3 0 0 (- 1)) = 4 \<and>
   effective_distance (new_Sphere (Vec3 0 0 3) 1 0 0 0 0) (Vec3 0 0 5) (Vec3 0 0 (- 1)) = 1 \<and>
   \<not> hits (new_Sphere (Vec3 0 9 0) 1 0 0 0 0) (Vec3 0 0 5) (Vec3 0 0 (- 1)) \<and>
   trace (Vec3 0 0 5) (Vec3 0 0 1) [new_Sphere (Vec3 0 0 0) 1 0 0 0 0] 3 = Inr (Vec3 2 2 2)"
proof -
  have search: "nearest_loop
     [new_Sphere (Vec3 0 0 0) 1 0 0 0 0, new_Sphere (Vec3 0 0 3) 1 0 0 0 0,
      new_Sphere (Vec3 0 9 0) 1 0 0 0 0, new_Sphere (Vec3 0 0 3) 1 0 0 0 0]
     (Vec3 0 0 5) (Vec3 0 0 (- 1)) 0 (PInf, None) = (Fin 1, Some 1)"
    by (simp add: nearest_loop_step nearest_loop_done nearest_step_def intersect_def
          new_Sphere_def dot_def minus_vec3_def Let_def)
  have e0: "effective_distance (new_Sphere (Vec3 0 0 0) 1 0 0 0 0) (Vec3 0 0 5) (Vec3 0 0 (- 1)) = 4"
    by (simp add: effective_distance_def new_Sphere_def dot_def minus_vec3_def Let_def)
  have e1: "effective_distance (new_Sphere (Vec3 0 0 3) 1 0 0 0 0) (Vec3 0 0 5) (Vec3 0 0 (- 1)) = 1"
    by (simp add: effective_distance_def new_Sphere_def dot_def minus_vec3_def Let_def)
  have m2: "\<not> hits (new_Sphere (Vec3 0 9 0) 1 0 0 0 0) (Vec3 0 0 5) (Vec3 0 0 (- 1))"
    by (simp add: hits_def intersect_def new_Sphere_def dot_def minus_vec3_def Let_def)
  have m0: "\<not> hits (new_Sphere (Vec3 0 0 0) 1 0 0 0 0) (Vec3 0 0 5) (Vec3 0 0 1)"
    by (simp add: hits_def intersect_def new_Sphere_def dot_def minus_vec3_def Let_def)
  have "trace (Vec3 0 0 5) (Vec3 0 0 1) [new_Sphere (Vec3 0 0 0) 1 0 0 0 0] 3 = Inr (Vec3 2 2 2)"
    using nearest_hit_search [of "[new_Sphere (Vec3 0 0 0) 1 0 0 0 0]" "Vec3 0 0 5" "Vec3 0 0 1" 3] m0
    by simp
  with search e0 e1 m2 show ?thesis by simp
qed

section \<open>Distances are not negative\<close>

lemma intersect_hit_nonneg:
  assumes "fst (intersect s rayorig raydir a b)"
  shows "0 \<le> dot (center s - rayorig) raydir \<and>
         0 \<le> sqrt (radius2 s -
                  (dot (center s - rayorig) (center s - rayorig) -
                   dot (center s - rayorig) raydir * dot (center s - rayorig) raydir)) \<and>
         (\<exists>t0 t1. intersect s rayorig raydir a b = (True, Fin t0, Fin t1) \<and> 0 \<le> t1 \<and>
                   0 \<le> (if t0 < 0 then t1 else t0))"
  using assms by (auto simp: intersect_def Let_def split: if_splits)

lemma nearest_step_nonneg:
  assumes "nonneg_or_infinity (fst st)"
  shows "nonneg_or_infinity (fst (nearest_step spheres rayorig raydir i st))"
proof (cases "fst (intersect (spheres ! i) rayorig raydir PInf PInf)")
  case False
  with assms show ?thesis
    by (cases st) (auto simp: nearest_step_def split: prod.splits)
next
  case True
  from intersect_hit_nonneg [OF True] obtain t0 t1 where
    "intersect (spheres ! i) rayorig raydir PInf PInf = (True, Fin t0, Fin t1)"
    "0 \<le> t1" "0 \<le> (if t0 < 0 then t1 else t0)" by blast
  with assms show ?thesis
    by (cases st) (auto simp: nearest_step_def nonneg_or_infinity_def Let_def split: if_splits)
qed

lemma nearest_loop_nonneg:
  "nonneg_or_infinity (fst st) \<Longrightarrow>
   nonneg_or_infinity (fst (nearest_loop spheres rayorig raydir i st))"
proof (induction spheres rayorig raydir i st rule: nearest_loop.induct)
  case (1 spheres rayorig raydir i st)
  show ?case
  proof (cases "i < length spheres")
    case True
    with 1 show ?thesis by (simp add: nearest_loop_step nearest_step_nonneg)
  next
    case False
    with 1 show ?thesis by (simp add: nearest_loop_done)
  qed
qed

lemma nearest_loop_fold:
  "nearest_loop spheres rayorig raydir i st =
     fold (nearest_step spheres rayorig raydir) [i..<length spheres] st"
proof (induction spheres rayorig raydir i st rule: nearest_loop.induct)
  case (1 spheres rayorig raydir i st)
  show ?case
  proof (cases "i < length spheres")
    case True
    with 1 show ?thesis by (simp add: nearest_loop_step upt_conv_Cons)
  next
    case False
    then show ?thesis by (simp add: nearest_loop_done)
  qed
qed

lemma fold_step_nonneg:
  "nonneg_or_infinity (fst st) \<Longrightarrow>
   nonneg_or_infinity (fst (fold (nearest_step spheres rayorig raydir) is st))"
  by (induction "is" arbitrary: st) (simp_all add: nearest_step_nonneg)

lemma nearest_selected_finite:
  assumes "nearest_loop spheres rayorig raydir 0 (PInf, None) = (tnear, Some si)"
  shows "si < length spheres \<and> (\<exists>t. tnear = Fin t \<and> 0 \<le> t)"
proof -
  have inv: "nearest_inv spheres rayorig raydir (length spheres) (tnear, Some si)"
    using nearest_inv_result [of spheres rayorig raydir] by (simp add: assms)
  have "nonneg_or_infinity (fst (nearest_loop spheres rayorig raydir 0 (PInf, None)))"
    by (rule nearest_loop_nonneg) (simp add: nonneg_or_infinity_def)
  with inv show ?thesis
    by (auto simp: assms nearest_inv_def nonneg_or_infinity_def)
qed

text \<open>
  C9. Whenever \<^verbatim>\<open>Sphere::intersect\<close> reports a hit, \<open>tca \<ge> 0\<close> and \<open>thc \<ge> 0\<close>, so
  \<open>t1 = tca + thc \<ge> 0\<close> and the effective distance of the nearest-hit search (\<open>t0\<close>, or
  \<open>t1\<close> when \<open>t0 < 0\<close>) is not negative. Every iteration of the search keeps
  \<open>tnear\<close> nonnegative or \<^verbatim>\<open>INFINITY\<close>; so it is after any number \<open>k\<close> of iterations
  from the initial state, the loop being the fold of its body over the indices; and a
  selected sphere comes with a finite \<open>tnear \<ge> 0\<close>: the hit point is not behind the ray
  origin.
\<close>

theorem hit_distance_nonneg:
  fixes s rayorig raydir a b spheres i st k
  defines "tca \<equiv> dot (center s - rayorig) raydir"
  defines "thc \<equiv> sqrt (radius2 s - (dot (center s - rayorig) (center s - rayorig) - tca * tca))"
  shows
    "(fst (intersect s rayorig raydir a b) \<longrightarrow>
        0 \<le> tca \<and> 0 \<le> thc \<and>
        intersect s rayorig raydir a b = (True, Fin (tca - thc), Fin (tca + thc)) \<and>
        0 \<le> tca + thc \<and> 0 \<le> (if tca - thc < 0 then tca + thc else tca - thc)) \<and>
     (nonneg_or_infinity (fst st) \<longrightarrow>
        nonneg_or_infinity (fst (nearest_step spheres rayorig raydir i st))) \<and>
     nonneg_or_infinity
       (fst (fold (nearest_step spheres rayorig raydir) [0..<k] (PInf, None))) \<and>
     nearest_loop spheres rayorig raydir 0 (PInf, None) =
       fold (nearest_step spheres rayorig raydir) [0..<length spheres] (PInf, None) \<and>
     (case nearest_loop spheres rayorig raydir 0 (PInf, None) of
        (tnear, None) \<Rightarrow> tnear = PInf
      | (tnear, Some si) \<Rightarrow> \<exists>t. tnear = Fin t \<and> 0 \<le> t)"
proof -
  have p1: "fst (intersect s rayorig raydir a b) \<longrightarrow>
        0 \<le> tca \<and> 0 \<le> thc \<and>
        intersect s rayorig raydir a b = (True, Fin (tca - thc), Fin (tca + thc)) \<and>
        0 \<le> tca + thc \<and> 0 \<le> (if tca - thc < 0 then tca + thc else tca - thc)"
    by (auto simp: intersect_def Let_def tca_def thc_def split: if_splits)
  have p2: "nonneg_or_infinity (fst st) \<longrightarrow>
        nonneg_or_infinity (fst (nearest_step spheres rayorig raydir i st))"
    by (simp add: nearest_step_nonneg)
  have p3: "nonneg_or_infinity
       (fst (fold (nearest_step spheres rayorig raydir) [0..<k] (PInf, None)))"
    by (rule fold_step_nonneg) (simp add: nonneg_or_infinity_def)
  have p4: "nearest_loop spheres rayorig raydir 0 (PInf, None) =
       fold (nearest_step spheres rayorig raydir) [0..<length spheres] (PInf, None)"
    by (rule nearest_loop_fold)
  have p5: "(case nearest_loop spheres rayorig raydir 0 (PInf, None) of
        (tnear, None) \<Rightarrow> tnear = PInf
      | (tnear, Some si) \<Rightarrow> \<exists>t. tnear = Fin t \<and> 0 \<le> t)"
  proof (cases "nearest_loop spheres rayorig raydir 0 (PInf, None)")
    case (Pair tnear sp)
    show ?thesis
    proof (cases sp)
      case None
      with Pair nearest_inv_result [of spheres rayorig raydir] show ?thesis
        by (simp add: nearest_inv_def)
    next
      case (Some si)
      with Pair nearest_selected_finite [of spheres rayorig raydir tnear si] show ?thesis
        by simp
    qed
  qed
  from p1 p2 p3 p4 p5 show ?thesis by blast
qed

theorem hit_distance_nonneg_witness:
  "intersect (new_Sphere (Vec3 0 0 0) 1 0 0 0 0) (Vec3 0 0 0) (Vec3 0 0 1) PInf PInf
     = (True, Fin (- 1), Fin 1) \<and>
   nonneg_or_infinity
     (fst (nearest_step [new_Sphere (Vec3 0 0 0) 1 0 0 0 0] (Vec3 0 0 0) (Vec3 0 0 1) 0
        (PInf, None))) \<and>
   nearest_loop [new_Sphere (Vec3 0 0 0) 1 0 0 0 0] (Vec3 0 0 0) (Vec3 0 0 1) 0 (PInf, None)
     = (Fin 1, Some 0)"
proof -
  have hit: "fst (intersect (new_Sphere (Vec3 0 0 0) 1 0 0 0 0) (Vec3 0 0 0) (Vec3 0 0 1)
                PInf PInf)"
    by (simp add: intersect_def new_Sphere_def dot_def minus_vec3_def Let_def)
  have init: "nonneg_or_infinity (fst (PInf, None :: nat option))"
    by (simp add: nonneg_or_infinity_def)
  have search:
    "nearest_loop [new_Sphere (Vec3 0 0 0) 1 0 0 0 0] (Vec3 0 0 0) (Vec3 0 0 1) 0 (PInf, None)
       = (Fin 1, Some 0)"
    by (simp add: nearest_loop_step nearest_loop_done nearest_step_def intersect_def
          new_Sphere_def dot_def minus_vec3_def Let_def)
  from hit init search
    hit_distance_nonneg
      [where s = "new_Sphere (Vec3 0 0 0) 1 0 0 0 0" and rayorig = "Vec3 0 0 0"
         and raydir = "Vec3 0 0 1" and a = PInf and b = PInf
         and spheres = "[new_Sphere (Vec3 0 0 0) 1 0 0 0 0]" and i = 0
         and st = "(PInf, None)" and k = 1]
  show ?thesis
    by (simp add: new_Sphere_def dot_def minus_vec3_def)
qed

section \<open>Termination and the depth bound\<close>

lemma trace_total: "\<forall>x. trace_dom x"
proof -
  have "All trace_dom"
    by (relation "measure (\<lambda>(rayorig, raydir, spheres, depth). nat (MAX_RAY_DEPTH - depth))")
       (auto simp: MAX_RAY_DEPTH_def)
  then show ?thesis by simp
qed

lemma trace_rel_depth:
  assumes "trace_rel (rayorig', raydir', spheres', depth') (rayorig, raydir, spheres, depth)"
  shows "depth < MAX_RAY_DEPTH \<and> depth' = depth + 1 \<and> spheres' = spheres"
  using assms by (cases rule: trace_rel.cases) auto

lemma call_chain_length:
  "call_chain ((rayorig, raydir, spheres, depth) # cs) \<Longrightarrow>
   length cs \<le> nat (MAX_RAY_DEPTH - depth)"
proof (induction cs arbitrary: rayorig raydir spheres depth)
  case Nil
  then show ?case by simp
next
  case (Cons b cs)
  obtain rayorig' raydir' spheres' depth' where b: "b = (rayorig', raydir', spheres', depth')"
    by (cases b) auto
  from Cons.prems b have rel: "trace_rel (rayorig', raydir', spheres', depth') (rayorig, raydir, spheres, depth)"
    and chain: "call_chain ((rayorig', raydir', spheres', depth') # cs)" by simp_all
  from trace_rel_depth [OF rel] have d: "depth < MAX_RAY_DEPTH" "depth' = depth + 1" by simp_all
  from Cons.IH [OF chain] have "length cs \<le> nat (MAX_RAY_DEPTH - depth')" .
  with d show ?case by simp
qed

lemma trace_rel_reflection:
  fixes rayorig raydir spheres depth tn si
  defines "sphere \<equiv> spheres ! si"
  defines "phit \<equiv> rayorig + smul raydir tn"
  defines "n \<equiv> normalize_vec (phit - center sphere)"
  defines "nhit \<equiv> (if dot raydir n > 0 then - n else n)"
  defines "refldir \<equiv> normalize_vec (raydir - smul (smul nhit 2) (dot raydir nhit))"
  assumes hit: "nearest_loop spheres rayorig raydir 0 (PInf, None) = (Fin tn, Some si)"
  assumes br: "(transparency sphere > 0 \<or> reflection sphere > 0) \<and> depth < MAX_RAY_DEPTH"
  shows "trace_rel (phit + smul nhit (1 / 10000), refldir, spheres, depth + 1)
           (rayorig, raydir, spheres, depth)"
proof -
  define xe where "xe = (if dot raydir n > 0 then (- n, True) else (n, False))"
  have nh: "nhit = fst xe" by (simp add: xe_def nhit_def)
  show ?thesis
    unfolding refldir_def nh
    by (rule trace_rel.intros(1)
          [where x = "Fin tn" and y = "Some si" and ?x1.0 = tn and ?x2.0 = si
             and xa = sphere and xc = n and xe = xe and ya = "snd xe"])
       (use br in \<open>simp_all add: hit xe_def phit_def n_def sphere_def\<close>)
qed

text \<open>
  C3. \<^verbatim>\<open>trace\<close> terminates on every input: its call relation is well-founded. A
  recursive call is made only when \<open>depth < MAX_RAY_DEPTH = 5\<close>, and it passes
  \<open>depth + 1\<close>. So a chain of calls that starts at \<open>depth\<close> makes at most
  \<open>MAX_RAY_DEPTH - depth\<close> recursive calls, and one that starts at a depth \<open>\<ge> 0\<close> (the
  renderer starts at 0) has at most \<open>MAX_RAY_DEPTH + 1\<close> members, whatever the scene.
  Once the depth has reached 5, a hit is shaded by the diffuse branch, which does not
  recurse. Between two mirrors that face each other the bound is reached: the chain of
  the witness has six members.
\<close>

theorem trace_terminates:
  fixes rayorig raydir spheres depth rayorig' raydir' spheres' depth' cs tn si
  defines "sphere \<equiv> spheres ! si"
  defines "phit \<equiv> rayorig + smul raydir tn"
  defines "n \<equiv> normalize_vec (phit - center sphere)"
  defines "nhit \<equiv> (if dot raydir n > 0 then - n else n)"
  shows
    "wfp trace_rel \<and>
     (trace_rel (rayorig', raydir', spheres', depth') (rayorig, raydir, spheres, depth) \<longrightarrow>
        depth < MAX_RAY_DEPTH \<and> depth' = depth + 1) \<and>
     (call_chain ((rayorig, raydir, spheres, depth) # cs) \<longrightarrow>
        length cs \<le> nat (MAX_RAY_DEPTH - depth)) \<and>
     (call_chain ((rayorig, raydir, spheres, depth) # cs) \<and> 0 \<le> depth \<longrightarrow>
        length ((rayorig, raydir, spheres, depth) # cs) \<le> nat MAX_RAY_DEPTH + 1) \<and>
     (MAX_RAY_DEPTH \<le> depth \<and>
      nearest_loop spheres rayorig raydir 0 (PInf, None) = (Fin tn, Some si) \<longrightarrow>
        trace rayorig raydir spheres depth =
          Inr (light_loop spheres sphere phit nhit (1 / 10000) 0 0 + emissionColor sphere)) \<and>
     MAX_RAY_DEPTH = 5"
proof -
  have p1: "wfp trace_rel"
    using trace_total by (simp add: wfp_iff_accp)
  have p2: "trace_rel (rayorig', raydir', spheres', depth') (rayorig, raydir, spheres, depth) \<longrightarrow>
        depth < MAX_RAY_DEPTH \<and> depth' = depth + 1"
    using trace_rel_depth by blast
  have p3': "call_chain ((rayorig, raydir, spheres, depth) # cs) \<longrightarrow>
        length cs \<le> nat (MAX_RAY_DEPTH - depth)"
    using call_chain_length [of rayorig raydir spheres depth cs] by blast
  have p3: "call_chain ((rayorig, raydir, spheres, depth) # cs) \<and> 0 \<le> depth \<longrightarrow>
        length ((rayorig, raydir, spheres, depth) # cs) \<le> nat MAX_RAY_DEPTH + 1"
  proof
    assume h: "call_chain ((rayorig, raydir, spheres, depth) # cs) \<and> 0 \<le> depth"
    then have "length cs \<le> nat (MAX_RAY_DEPTH - depth)"
      using call_chain_length [of rayorig raydir spheres depth cs] by blast
    moreover from h have "0 \<le> depth" by simp
    then have "nat (MAX_RAY_DEPTH - depth) \<le> nat MAX_RAY_DEPTH" by linarith
    ultimately show "length ((rayorig, raydir, spheres, depth) # cs) \<le> nat MAX_RAY_DEPTH + 1"
      by simp
  qed
  have p4: "MAX_RAY_DEPTH \<le> depth \<and>
      nearest_loop spheres rayorig raydir 0 (PInf, None) = (Fin tn, Some si) \<longrightarrow>
        trace rayorig raydir spheres depth =
          Inr (light_loop spheres sphere phit nhit (1 / 10000) 0 0 + emissionColor sphere)"
  proof (intro impI, elim conjE)
    assume d: "MAX_RAY_DEPTH \<le> depth"
      and hit: "nearest_loop spheres rayorig raydir 0 (PInf, None) = (Fin tn, Some si)"
    from d have "\<not> ((transparency (spheres ! si) > 0 \<or> reflection (spheres ! si) > 0) \<and>
                    depth < MAX_RAY_DEPTH)" by simp
    from trace_diffuse [OF hit this]
    show "trace rayorig raydir spheres depth =
          Inr (light_loop spheres sphere phit nhit (1 / 10000) 0 0 + emissionColor sphere)"
      unfolding sphere_def phit_def n_def nhit_def .
  qed
  from p1 p2 p3' p3 p4 show ?thesis by (simp add: MAX_RAY_DEPTH_def)
qed

theorem trace_terminates_witness:
  "call_chain
     [(Vec3 0 0 2, Vec3 0 0 (- 1),
       [new_Sphere (Vec3 0 0 0) 1 (Vec3f 1) 1 0 0, new_Sphere (Vec3 0 0 4) 1 (Vec3f 1) 1 0 0], 0),
      (Vec3 0 0 (10001 / 10000), Vec3 0 0 1,
       [new_Sphere (Vec3 0 0 0) 1 (Vec3f 1) 1 0 0, new_Sphere (Vec3 0 0 4) 1 (Vec3f 1) 1 0 0], 1),
      (Vec3 0 0 (29999 / 10000), Vec3 0 0 (- 1),
       [new_Sphere (Vec3 0 0 0) 1 (Vec3f 1) 1 0 0, new_Sphere (Vec3 0 0 4) 1 (Vec3f 1) 1 0 0], 2),
      (Vec3 0 0 (10001 / 10000), Vec3 0 0 1,
       [new_Sphere (Vec3 0 0 0) 1 (Vec3f 1) 1 0 0, new_Sphere (Vec3 0 0 4) 1 (Vec3f 1) 1 0 0], 3),
      (Vec3 0 0 (29999 / 10000), Vec3 0 0 (- 1),
       [new_Sphere (Vec3 0 0 0) 1 (Vec3f 1) 1 0 0, new_Sphere (Vec3 0 0 4) 1 (Vec3f 1) 1 0 0], 4),
      (Vec3 0 0 (10001 / 10000), Vec3 0 0 1,
       [new_Sphere (Vec3 0 0 0) 1 (Vec3f 1) 1 0 0, new_Sphere (Vec3 0 0 4) 1 (Vec3f 1) 1 0 0], 5)] \<and>
   trace (Vec3 0 0 2) (Vec3 0 0 (- 1))
     [new_Sphere (Vec3 0 0 0) 1 (Vec3f 1) 1 0 0, new_Sphere (Vec3 0 0 4) 1 (Vec3f 1) 1 0 0] 0
     = Inr (Vec3 0 0 0) \<and>
   trace (Vec3 0 0 (10001 / 10000)) (Vec3 0 0 1)
     [new_Sphere (Vec3 0 0 0) 1 (Vec3f 1) 1 0 0, new_Sphere (Vec3 0 0 4) 1 (Vec3f 1) 1 0 0] 5
     = Inr (Vec3 0 0 0) \<and>
   (6 :: nat) \<le> nat MAX_RAY_DEPTH + 1"
proof -
  define mirrors where
    "mirrors = [new_Sphere (Vec3 0 0 0) 1 (Vec3f 1) 1 0 0, new_Sphere (Vec3 0 0 4) 1 (Vec3f 1) 1 0 0]"
  have fields:
    "center (mirrors ! 0) = Vec3 0 0 0" "center (mirrors ! Suc 0) = Vec3 0 0 4"
    "reflection (mirrors ! 0) = 1" "reflection (mirrors ! Suc 0) = 1"
    "transparency (mirrors ! 0) = 0" "transparency (mirrors ! Suc 0) = 0"
    "surfaceColor (mirrors ! 0) = Vec3 1 1 1" "surfaceColor (mirrors ! Suc 0) = Vec3 1 1 1"
    "emissionColor (mirrors ! 0) = Vec3 0 0 0" "emissionColor (mirrors ! Suc 0) = Vec3 0 0 0"
    by (simp_all add: mirrors_def new_Sphere_def Vec3f_def zero_vec3_def)
  have hit0: "nearest_loop mirrors (Vec3 0 0 2) (Vec3 0 0 (- 1)) 0 (PInf, None) = (Fin 1, Some 0)"
    by (simp add: mirrors_def scene_eval vec3_eval)
  have hit_up: "nearest_loop mirrors (Vec3 0 0 (10001 / 10000)) (Vec3 0 0 1) 0 (PInf, None)
                  = (Fin (19999 / 10000), Some (Suc 0))"
    by (simp add: mirrors_def scene_eval vec3_eval)
  have hit_down: "nearest_loop mirrors (Vec3 0 0 (29999 / 10000)) (Vec3 0 0 (- 1)) 0 (PInf, None)
                  = (Fin (19999 / 10000), Some 0)"
    by (simp add: mirrors_def scene_eval vec3_eval)
  have br0: "(transparency (mirrors ! 0) > 0 \<or> reflection (mirrors ! 0) > 0) \<and> d < MAX_RAY_DEPTH"
    if "d < 5" for d :: int
    using that by (simp add: fields MAX_RAY_DEPTH_def)
  have br1: "(transparency (mirrors ! Suc 0) > 0 \<or> reflection (mirrors ! Suc 0) > 0) \<and>
             d < MAX_RAY_DEPTH"
    if "d < 5" for d :: int
    using that by (simp add: fields MAX_RAY_DEPTH_def)
  have rel0: "trace_rel (Vec3 0 0 (10001 / 10000), Vec3 0 0 1, mirrors, 1)
                (Vec3 0 0 2, Vec3 0 0 (- 1), mirrors, 0)"
    using trace_rel_reflection [OF hit0 br0 [of 0]] by (simp add: fields vec3_eval)
  have rel_up: "trace_rel (Vec3 0 0 (29999 / 10000), Vec3 0 0 (- 1), mirrors, d + 1)
                  (Vec3 0 0 (10001 / 10000), Vec3 0 0 1, mirrors, d)"
    if "d < 5" for d :: int
    using trace_rel_reflection [OF hit_up br1 [OF that]] by (simp add: fields vec3_eval)
  have rel_down: "trace_rel (Vec3 0 0 (10001 / 10000), Vec3 0 0 1, mirrors, d + 1)
                  (Vec3 0 0 (29999 / 10000), Vec3 0 0 (- 1), mirrors, d)"
    if "d < 5" for d :: int
    using trace_rel_reflection [OF hit_down br0 [OF that]] by (simp add: fields vec3_eval)
  have chain: "call_chain
     [(Vec3 0 0 2, Vec3 0 0 (- 1), mirrors, 0),
      (Vec3 0 0 (10001 / 10000), Vec3 0 0 1, mirrors, 1),
      (Vec3 0 0 (29999 / 10000), Vec3 0 0 (- 1), mirrors, 2),
      (Vec3 0 0 (10001 / 10000), Vec3 0 0 1, mirrors, 3),
      (Vec3 0 0 (29999 / 10000), Vec3 0 0 (- 1), mirrors, 4),
      (Vec3 0 0 (10001 / 10000), Vec3 0 0 1, mirrors, 5)]"
    using rel0 rel_up [of 1] rel_down [of 2] rel_up [of 3] rel_down [of 4] by simp
  have dark: "light_loop mirrors hs p nh b 0 0 = 0" for hs p nh b
    by (simp add: light_loop_skip light_loop_done fields mirrors_def new_Sphere_def zero_vec3_def)
  have up5: "trace (Vec3 0 0 (10001 / 10000)) (Vec3 0 0 1) mirrors 5 = Inr (Vec3 0 0 0)"
    using trace_terminates
            [where rayorig = "Vec3 0 0 (10001 / 10000)" and raydir = "Vec3 0 0 1"
               and spheres = mirrors and depth = 5 and tn = "19999 / 10000" and si = "Suc 0"]
          hit_up
    by (simp add: MAX_RAY_DEPTH_def dark) (simp add: fields vec3_eval)
  have down: "trace (Vec3 0 0 (29999 / 10000)) (Vec3 0 0 (- 1)) mirrors d = Inr (Vec3 0 0 0)"
    if "d < 5" "trace (Vec3 0 0 (10001 / 10000)) (Vec3 0 0 1) mirrors (d + 1) = Inr (Vec3 0 0 0)"
    for d :: int
    using trace_specular [OF hit_down br0 [OF that(1)]] that(2)
    by (simp add: fields vec3_eval mix_def)
  have up: "trace (Vec3 0 0 (10001 / 10000)) (Vec3 0 0 1) mirrors d = Inr (Vec3 0 0 0)"
    if "d < 5" "trace (Vec3 0 0 (29999 / 10000)) (Vec3 0 0 (- 1)) mirrors (d + 1) = Inr (Vec3 0 0 0)"
    for d :: int
    using trace_specular [OF hit_up br1 [OF that(1)]] that(2)
    by (simp add: fields vec3_eval mix_def)
  have down4: "trace (Vec3 0 0 (29999 / 10000)) (Vec3 0 0 (- 1)) mirrors 4 = Inr (Vec3 0 0 0)"
    using down [of 4] up5 by simp
  have up3: "trace (Vec3 0 0 (10001 / 10000)) (Vec3 0 0 1) mirrors 3 = Inr (Vec3 0 0 0)"
    using up [of 3] down4 by simp
  have down2: "trace (Vec3 0 0 (29999 / 10000)) (Vec3 0 0 (- 1)) mirrors 2 = Inr (Vec3 0 0 0)"
    using down [of 2] up3 by simp
  have up1: "trace (Vec3 0 0 (10001 / 10000)) (Vec3 0 0 1) mirrors 1 = Inr (Vec3 0 0 0)"
    using up [of 1] down2 by simp
  have top: "trace (Vec3 0 0 2) (Vec3 0 0 (- 1)) mirrors 0 = Inr (Vec3 0 0 0)"
    using trace_specular [OF hit0 br0 [of 0]] up1
    by (simp add: fields vec3_eval mix_def)
  have len: "(6 :: nat) \<le> nat MAX_RAY_DEPTH + 1"
    using trace_terminates
            [where rayorig = "Vec3 0 0 2" and raydir = "Vec3 0 0 (- 1)" and spheres = mirrors
               and depth = 0
               and cs = "[(Vec3 0 0 (10001 / 10000), Vec3 0 0 1, mirrors, 1),
                          (Vec3 0 0 (29999 / 10000), Vec3 0 0 (- 1), mirrors, 2),
                          (Vec3 0 0 (10001 / 10000), Vec3 0 0 1, mirrors, 3),
                          (Vec3 0 0 (29999 / 10000), Vec3 0 0 (- 1), mirrors, 4),
                          (Vec3 0 0 (10001 / 10000), Vec3 0 0 1, mirrors, 5)]"]
          chain
    by (simp add: MAX_RAY_DEPTH_def)
  from chain top up5 len show ?thesis by (simp add: mirrors_def)
qed

section \<open>The specular and transmissive branch\<close>

text \<open>
  C4. When the hit sphere has \<open>reflection > 0\<close> or \<open>transparency > 0\<close> and \<open>depth < 5\<close>,
  \<^verbatim>\<open>trace\<close> computes \<open>fresnel = mix ((1 - facingratio)\<^sup>3) 1 0.1\<close> with
  \<open>mix a b m = b * m + a * (1 - m)\<close> and \<open>facingratio = - direction \<cdot> normal\<close>, and traces
  the reflection ray from \<open>phit + normal * bias\<close> (\<open>bias = 1e-4\<close>) along
  \<open>refldir = normalize (direction - normal * 2 * (direction \<cdot> normal))\<close> at
  \<open>depth + 1\<close>. With the colour \<open>reflCol\<close> that this call returns, the surface colour is
  \<open>(reflCol * fresnel + refrCol * (1 - fresnel) * transparency) * surfaceColor\<close>, where
  \<open>refrCol\<close> is the zero vector when \<open>transparency = 0\<close> and the colour that the
  refraction call returns otherwise; \<^verbatim>\<open>trace\<close> returns it plus the emission colour.
\<close>

theorem specular_shading:
  fixes rayorig raydir spheres depth tn si reflCol refrCol a b m
  defines "sphere \<equiv> spheres ! si"
  defines "bias \<equiv> 1 / 10000"
  defines "phit \<equiv> rayorig + smul raydir tn"
  defines "n \<equiv> normalize_vec (phit - center sphere)"
  defines "inside \<equiv> dot raydir n > 0"
  defines "nhit \<equiv> (if inside then - n else n)"
  defines "facingratio \<equiv> - dot raydir nhit"
  defines "fresnel \<equiv> mix ((1 - facingratio) ^ 3) 1 (1 / 10)"
  defines "refldir \<equiv> normalize_vec (raydir - smul (smul nhit 2) (dot raydir nhit))"
  defines "eta \<equiv> (if inside then 11 / 10 else 1 / (11 / 10))"
  defines "cosi \<equiv> - dot nhit raydir"
  defines "k \<equiv> 1 - eta * eta * (1 - cosi * cosi)"
  defines "refrdir \<equiv> normalize_vec (smul raydir eta + smul nhit (eta * cosi - sqrt k))"
  assumes hit: "nearest_loop spheres rayorig raydir 0 (PInf, None) = (Fin tn, Some si)"
  assumes br: "(reflection sphere > 0 \<or> transparency sphere > 0) \<and> depth < 5"
  assumes refl: "trace (phit + smul nhit bias) refldir spheres (depth + 1) = Inr reflCol"
  shows
    "(transparency sphere = 0 \<longrightarrow>
        trace rayorig raydir spheres depth =
          Inr ((smul reflCol fresnel + smul (smul 0 (1 - fresnel)) (transparency sphere)) *
               surfaceColor sphere + emissionColor sphere)) \<and>
     (transparency sphere \<noteq> 0 \<and> 0 \<le> k \<and>
      trace (phit - smul nhit bias) refrdir spheres (depth + 1) = Inr refrCol \<longrightarrow>
        trace rayorig raydir spheres depth =
          Inr ((smul reflCol fresnel + smul (smul refrCol (1 - fresnel)) (transparency sphere)) *
               surfaceColor sphere + emissionColor sphere)) \<and>
     mix a b m = b * m + a * (1 - m)"
proof -
  have br': "(transparency (spheres ! si) > 0 \<or> reflection (spheres ! si) > 0) \<and>
             depth < MAX_RAY_DEPTH"
    using br by (auto simp: sphere_def MAX_RAY_DEPTH_def)
  note unfold = trace_specular [OF hit br']
  note refl' = refl [unfolded sphere_def bias_def phit_def n_def inside_def nhit_def refldir_def]
  show ?thesis
    unfolding sphere_def bias_def phit_def n_def inside_def nhit_def facingratio_def
      fresnel_def refldir_def eta_def cosi_def k_def refrdir_def
    by (simp only: unfold refl' sum.case mix_def) (simp add: not_less [symmetric])
qed

theorem specular_shading_witness:
  "trace (Vec3 0 0 5) (Vec3 0 0 (- 1)) [new_Sphere (Vec3 0 0 0) 1 (Vec3f 1) 1 0 0] 0
     = Inr (Vec3 (1 / 5) (1 / 5) (1 / 5)) \<and>
   trace (Vec3 0 0 5) (Vec3 0 0 (- 1)) [new_Sphere (Vec3 0 0 0) 1 (Vec3f 1) 0 (1 / 2) 0] 4
     = Inr (Vec3 (1 / 5) (1 / 5) (1 / 5))"
proof -
  define mirror where "mirror = new_Sphere (Vec3 0 0 0) 1 (Vec3f 1) 1 0 0"
  define glass where "glass = new_Sphere (Vec3 0 0 0) 1 (Vec3f 1) 0 (1 / 2) 0"
  have hit_m: "nearest_loop [mirror] (Vec3 0 0 5) (Vec3 0 0 (- 1)) 0 (PInf, None) = (Fin 4, Some 0)"
    by (simp add: mirror_def scene_eval vec3_eval)
  have hit_g: "nearest_loop [glass] (Vec3 0 0 5) (Vec3 0 0 (- 1)) 0 (PInf, None) = (Fin 4, Some 0)"
    by (simp add: glass_def scene_eval vec3_eval)
  have miss_m: "trace (Vec3 0 0 (10001 / 10000)) (Vec3 0 0 1) [mirror] 1 = Inr (Vec3 2 2 2)"
    by (simp add: trace_miss mirror_def scene_eval vec3_eval)
  have miss_g: "trace (Vec3 0 0 (10001 / 10000)) (Vec3 0 0 1) [glass] 5 = Inr (Vec3 2 2 2)"
    by (simp add: trace_miss glass_def scene_eval vec3_eval)
  have hit_in: "nearest_loop [glass] (Vec3 0 0 (9999 / 10000)) (Vec3 0 0 (- 1)) 0 (PInf, None)
                  = (Fin (19999 / 10000), Some 0)"
    by (simp add: glass_def scene_eval vec3_eval)
  have dark: "light_loop [glass] glass p nh (1 / 10000) 0 0 = 0" for p nh
    by (simp add: light_loop_skip light_loop_done glass_def new_Sphere_def zero_vec3_def)
  have refr_g: "trace (Vec3 0 0 (9999 / 10000)) (Vec3 0 0 (- 1)) [glass] 5 = Inr (Vec3 0 0 0)"
    using trace_diffuse [OF hit_in, of 5]
    by (simp add: MAX_RAY_DEPTH_def dark) (simp add: glass_def new_Sphere_def vec3_eval)
  have m: "trace (Vec3 0 0 5) (Vec3 0 0 (- 1)) [mirror] 0 = Inr (Vec3 (1 / 5) (1 / 5) (1 / 5))"
    using specular_shading [OF hit_m, of 0 "Vec3 2 2 2"] miss_m
    by (simp add: mirror_def new_Sphere_def vec3_eval mix_def)
  have g: "trace (Vec3 0 0 5) (Vec3 0 0 (- 1)) [glass] 4 = Inr (Vec3 (1 / 5) (1 / 5) (1 / 5))"
    using specular_shading [OF hit_g, of 4 "Vec3 2 2 2" "Vec3 0 0 0"] miss_g refr_g
    by (simp add: glass_def new_Sphere_def vec3_eval mix_def)
  from m g show ?thesis by (simp add: mirror_def glass_def)
qed

text \<open>
  C5. At a hit, if \<open>direction \<cdot> normal > 0\<close> the normal is negated and the hit is inside.
  Then, when \<open>transparency > 0\<close> and \<open>depth < 5\<close>, the refraction ray uses
  \<open>eta = ior\<close> if inside and \<open>1 / ior\<close> otherwise, with \<open>ior = 1.1\<close>,
  \<open>cosi = - normal \<cdot> direction\<close> and \<open>k = 1 - eta\<^sup>2 * (1 - cosi\<^sup>2)\<close>; where \<open>k \<ge> 0\<close>, its
  direction is \<open>normalize (direction * eta + normal * (eta * cosi - sqrt k))\<close>, its origin
  is \<open>phit - normal * bias\<close> and it is traced at \<open>depth + 1\<close>: the colour of that call is
  the refraction colour of the surface colour.
\<close>

theorem refraction_ray:
  fixes rayorig raydir spheres depth tn si reflCol
  defines "sphere \<equiv> spheres ! si"
  defines "bias \<equiv> 1 / 10000"
  defines "phit \<equiv> rayorig + smul raydir tn"
  defines "n \<equiv> normalize_vec (phit - center sphere)"
  defines "inside \<equiv> dot raydir n > 0"
  defines "nhit \<equiv> (if dot raydir n > 0 then - n else n)"
  defines "fresnel \<equiv> mix ((1 - (- dot raydir nhit)) ^ 3) 1 (1 / 10)"
  defines "refldir \<equiv> normalize_vec (raydir - smul (smul nhit 2) (dot raydir nhit))"
  defines "ior \<equiv> 11 / 10"
  defines "eta \<equiv> (if inside then ior else 1 / ior)"
  defines "cosi \<equiv> - dot nhit raydir"
  defines "k \<equiv> 1 - eta\<^sup>2 * (1 - cosi\<^sup>2)"
  defines "refrdir \<equiv> normalize_vec (smul raydir eta + smul nhit (eta * cosi - sqrt k))"
  assumes hit: "nearest_loop spheres rayorig raydir 0 (PInf, None) = (Fin tn, Some si)"
  assumes transparent: "transparency sphere > 0"
  assumes depth: "depth < 5"
  assumes k: "0 \<le> k"
  assumes refl: "trace (phit + smul nhit bias) refldir spheres (depth + 1) = Inr reflCol"
  shows
    "trace rayorig raydir spheres depth =
       (case trace (phit - smul nhit bias) refrdir spheres (depth + 1) of
          Inl e \<Rightarrow> Inl e
        | Inr refrCol \<Rightarrow>
            Inr ((smul reflCol fresnel + smul (smul refrCol (1 - fresnel)) (transparency sphere)) *
                 surfaceColor sphere + emissionColor sphere))"
proof -
  have br: "(transparency (spheres ! si) > 0 \<or> reflection (spheres ! si) > 0) \<and>
            depth < MAX_RAY_DEPTH"
    using transparent depth by (simp add: sphere_def MAX_RAY_DEPTH_def)
  have tr: "transparency (spheres ! si) \<noteq> 0"
    using transparent by (simp add: sphere_def)
  note unfold = trace_specular [OF hit br]
  note refl' = refl [unfolded sphere_def bias_def phit_def n_def nhit_def refldir_def]
  note k' = k [unfolded k_def eta_def ior_def inside_def cosi_def nhit_def n_def phit_def
                sphere_def power2_eq_square]
  show ?thesis
    unfolding sphere_def bias_def phit_def n_def inside_def nhit_def
      fresnel_def refldir_def ior_def eta_def cosi_def k_def refrdir_def power2_eq_square
    using k' tr
    by (simp only: unfold refl' sum.case if_True if_False not_less [symmetric] simp_thms)
qed

theorem refraction_ray_witness:
  "trace (Vec3 0 0 5) (Vec3 0 0 (- 1)) [new_Sphere (Vec3 0 0 0) 1 (Vec3f 1) 0 (1 / 2) (Vec3f 1)] 4
     = Inr (Vec3 (21 / 10) (21 / 10) (21 / 10))"
proof -
  define glow where "glow = new_Sphere (Vec3 0 0 0) 1 (Vec3f 1) 0 (1 / 2) (Vec3f 1)"
  have fields:
    "center glow = Vec3 0 0 0" "radius2 glow = 1" "surfaceColor glow = Vec3 1 1 1"
    "emissionColor glow = Vec3 1 1 1" "transparency glow = 1 / 2" "reflection glow = 0"
    by (simp_all add: glow_def new_Sphere_def Vec3f_def)
  have hit: "nearest_loop [glow] (Vec3 0 0 5) (Vec3 0 0 (- 1)) 0 (PInf, None) = (Fin 4, Some 0)"
    by (simp add: glow_def scene_eval vec3_eval)
  have refl: "trace (Vec3 0 0 (10001 / 10000)) (Vec3 0 0 1) [glow] 5 = Inr (Vec3 2 2 2)"
    by (simp add: trace_miss glow_def scene_eval vec3_eval)
  have hit_in: "nearest_loop [glow] (Vec3 0 0 (9999 / 10000)) (Vec3 0 0 (- 1)) 0 (PInf, None)
                  = (Fin (19999 / 10000), Some 0)"
    by (simp add: glow_def scene_eval vec3_eval)
  have lit: "light_loop [glow] glow (Vec3 0 0 (- 1)) (Vec3 0 0 1) (1 / 10000) 0 (Vec3 0 0 0)
               = Vec3 1 1 1"
    by (simp add: light_eval fields vec3_eval)
  have refr: "trace (Vec3 0 0 (9999 / 10000)) (Vec3 0 0 (- 1)) [glow] 5 = Inr (Vec3 2 2 2)"
    using trace_diffuse [OF hit_in, of 5]
    by (simp add: MAX_RAY_DEPTH_def fields vec3_eval lit)
  have "trace (Vec3 0 0 5) (Vec3 0 0 (- 1)) [glow] 4 = Inr (Vec3 (21 / 10) (21 / 10) (21 / 10))"
    using refraction_ray [OF hit, of 4 "Vec3 2 2 2"] refl refr
    by (simp add: fields vec3_eval mix_def)
  then show ?thesis by (simp add: glow_def)
qed

section \<open>The diffuse branch\<close>

lemma shadow_loop_eq:
  "shadow_loop spheres shadoworig lightDirection i j transmission =
     (if \<exists>j'. j \<le> j' \<and> j' < length spheres \<and> j' \<noteq> i \<and>
              hits (spheres ! j') shadoworig lightDirection
      then 0 else transmission)"
proof (induction spheres shadoworig lightDirection i j transmission rule: shadow_loop.induct)
  case (1 spheres shadoworig lightDirection i j transmission)
  have h: "hits s shadoworig lightDirection =
           fst (intersect s shadoworig lightDirection indeterminate indeterminate)" for s
    unfolding hits_def by (rule intersect_hit_indep)
  show ?case
  proof (cases "j < length spheres")
    case False
    then show ?thesis by (auto simp: shadow_loop_done)
  next
    case True
    show ?thesis
    proof (cases "i \<noteq> j \<and> hits (spheres ! j) shadoworig lightDirection")
      case True
      with \<open>j < length spheres\<close> show ?thesis
        by (subst shadow_loop_step) (auto simp: h)
    next
      case False
      with \<open>j < length spheres\<close> 1
      have "shadow_loop spheres shadoworig lightDirection i j transmission =
            (if \<exists>j'. Suc j \<le> j' \<and> j' < length spheres \<and> j' \<noteq> i \<and>
                      hits (spheres ! j') shadoworig lightDirection
             then 0 else transmission)"
        by (subst shadow_loop_step) (auto simp: h)
      moreover
      have "(\<exists>j'. Suc j \<le> j' \<and> j' < length spheres \<and> j' \<noteq> i \<and>
                  hits (spheres ! j') shadoworig lightDirection) =
            (\<exists>j'. j \<le> j' \<and> j' < length spheres \<and> j' \<noteq> i \<and>
                  hits (spheres ! j') shadoworig lightDirection)"
        using False by (metis Suc_leD Suc_leI le_neq_implies_less)
      ultimately show ?thesis by simp
    qed
  qed
qed

lemma shadow_loop_shadowed:
  "shadow_loop spheres shadoworig lightDirection i 0 (Vec3f 1) =
     (if shadowed spheres i shadoworig lightDirection then 0 else Vec3f 1)"
  by (simp add: shadow_loop_eq shadowed_def)

lemma light_term_code:
  "smul (surfaceColor hitsphere *
         shadow_loop spheres (phit + smul nhit bias)
           (normalize_vec (center (spheres ! i) - phit)) i 0 (Vec3f 1))
     (max 0 (dot nhit (normalize_vec (center (spheres ! i) - phit)))) *
   emissionColor (spheres ! i) =
   light_term spheres hitsphere phit nhit bias i"
  unfolding shadow_loop_shadowed light_term_def Let_def
  by (cases "shadowed spheres i (phit + smul nhit bias)
               (normalize_vec (center (spheres ! i) - phit))")
     (simp_all add: smul_def times_vec3_def zero_vec3_def Vec3f_def)

lemma light_loop_sum:
  "light_loop spheres hitsphere phit nhit bias i surfCol =
     surfCol +
     (\<Sum>i \<leftarrow> filter (\<lambda>i. is_light (spheres ! i)) [i..<length spheres].
        light_term spheres hitsphere phit nhit bias i)"
proof (induction spheres hitsphere phit nhit bias i surfCol rule: light_loop.induct)
  case (1 spheres hitsphere phit nhit bias i surfCol)
  show ?case
  proof (cases "i < length spheres")
    case False
    then show ?thesis by (simp add: light_loop_done)
  next
    case True
    show ?thesis
    proof (cases "vx (emissionColor (spheres ! i)) > 0")
      case light: True
      with True 1(1) [OF True light refl refl refl] show ?thesis
        by (simp add: light_loop_light light_term_code upt_conv_Cons is_light_def add.assoc)
    next
      case False
      with True 1(2) [OF True False] show ?thesis
        by (simp add: light_loop_skip upt_conv_Cons is_light_def)
    qed
  qed
qed

lemma normalize_vec_swap: "normalize_vec (a - b) = - normalize_vec (b - a)"
proof -
  have "dot (a - b) (a - b) = dot (b - a) (b - a)"
    by (simp add: dot_def minus_vec3_def power2_commute [symmetric] power2_eq_square [symmetric])
  then show ?thesis
    by (simp add: normalize_vec_def Let_def uminus_vec3_def minus_vec3_def
          diff_divide_distrib)
qed

lemma own_light_term_outside:
  assumes "nhit = normalize_vec (phit - center (spheres ! si))"
  shows "light_term spheres hitsphere phit nhit bias si = 0"
proof -
  have "dot nhit (normalize_vec (center (spheres ! si) - phit)) = - dot nhit nhit"
    by (simp add: assms normalize_vec_swap [of "center (spheres ! si)" phit]
          dot_def uminus_vec3_def)
  moreover have "0 \<le> dot nhit nhit"
    by (simp add: dot_def)
  ultimately have "max 0 (dot nhit (normalize_vec (center (spheres ! si) - phit))) = 0"
    by simp
  then show ?thesis
    by (simp add: light_term_def Let_def smul_def times_vec3_def zero_vec3_def)
qed

lemma sum_list_filter_zero:
  fixes f :: "nat \<Rightarrow> vec3"
  assumes "f k = 0"
  shows "(\<Sum>i \<leftarrow> filter P xs. f i) = (\<Sum>i \<leftarrow> filter (\<lambda>i. i \<noteq> k \<and> P i) xs. f i)"
  using assms by (induction xs) auto

text \<open>
  C6, amended. In the diffuse branch the surface colour is the sum, over every sphere of
  the scene whose emission colour has a positive red channel, the hit sphere included,
  of \<open>surfaceColor * transmission * max 0 (normal \<cdot> lightDir) * light.emissionColor\<close>,
  where \<open>lightDir = normalize (light.center - phit)\<close> and the transmission is 0 if a
  sphere other than the light itself is hit by the shadow ray from \<open>phit + normal * bias\<close>
  toward \<open>lightDir\<close>, and 1 otherwise. \<^verbatim>\<open>trace\<close> returns this sum plus the emission
  colour of the hit sphere. Where the ray hits the sphere from outside, the term of the
  hit sphere itself is zero, and the sum is the sum over the other lights.
\<close>

theorem diffuse_shading:
  fixes rayorig raydir spheres depth tn si
  defines "sphere \<equiv> spheres ! si"
  defines "bias \<equiv> 1 / 10000"
  defines "phit \<equiv> rayorig + smul raydir tn"
  defines "n \<equiv> normalize_vec (phit - center sphere)"
  defines "nhit \<equiv> (if dot raydir n > 0 then - n else n)"
  assumes hit: "nearest_loop spheres rayorig raydir 0 (PInf, None) = (Fin tn, Some si)"
  assumes br: "\<not> ((transparency sphere > 0 \<or> reflection sphere > 0) \<and> depth < 5)"
  shows
    "trace rayorig raydir spheres depth =
       Inr (diffuse_sum spheres sphere phit nhit bias + emissionColor sphere) \<and>
     (\<not> dot raydir n > 0 \<longrightarrow>
        diffuse_sum spheres sphere phit nhit bias =
        diffuse_sum_others spheres si sphere phit nhit bias)"
proof
  have br': "\<not> ((transparency (spheres ! si) > 0 \<or> reflection (spheres ! si) > 0) \<and>
                depth < MAX_RAY_DEPTH)"
    using br by (simp add: sphere_def MAX_RAY_DEPTH_def)
  have "light_loop spheres sphere phit nhit bias 0 0 = diffuse_sum spheres sphere phit nhit bias"
    by (simp add: light_loop_sum diffuse_sum_def)
  with trace_diffuse [OF hit br']
  show "trace rayorig raydir spheres depth =
       Inr (diffuse_sum spheres sphere phit nhit bias + emissionColor sphere)"
    unfolding sphere_def bias_def phit_def n_def nhit_def by simp
  show "\<not> dot raydir n > 0 \<longrightarrow>
        diffuse_sum spheres sphere phit nhit bias =
        diffuse_sum_others spheres si sphere phit nhit bias"
  proof
    assume "\<not> dot raydir n > 0"
    then have "nhit = normalize_vec (phit - center (spheres ! si))"
      by (simp add: nhit_def n_def sphere_def)
    then have "light_term spheres sphere phit nhit bias si = 0"
      by (rule own_light_term_outside)
    then show "diffuse_sum spheres sphere phit nhit bias =
        diffuse_sum_others spheres si sphere phit nhit bias"
      unfolding diffuse_sum_def diffuse_sum_others_def
      by (rule sum_list_filter_zero)
  qed
qed

theorem diffuse_shading_witness:
  "trace (Vec3 5 0 1) (Vec3 (- 1) 0 0)
     [new_Sphere (Vec3 0 0 0) 1 (Vec3f 1) 0 0 0, new_Sphere (Vec3 0 0 5) 1 (Vec3f 1) 0 0 0,
      new_Sphere (Vec3 0 0 10) 1 0 0 0 (Vec3f 3)] 0 = Inr (Vec3 0 0 0) \<and>
   trace (Vec3 5 0 1) (Vec3 (- 1) 0 0)
     [new_Sphere (Vec3 0 0 0) 1 (Vec3f 1) 0 0 0,
      new_Sphere (Vec3 0 0 10) 1 0 0 0 (Vec3f 3)] 0 = Inr (Vec3 3 3 3)"
proof -
  define receiver where "receiver = new_Sphere (Vec3 0 0 0) 1 (Vec3f 1) 0 0 0"
  define occluder where "occluder = new_Sphere (Vec3 0 0 5) 1 (Vec3f 1) 0 0 0"
  define light where "light = new_Sphere (Vec3 0 0 10) 1 0 0 0 (Vec3f 3)"
  have fields:
    "center receiver = Vec3 0 0 0" "radius2 receiver = 1" "surfaceColor receiver = Vec3 1 1 1"
    "emissionColor receiver = Vec3 0 0 0" "transparency receiver = 0" "reflection receiver = 0"
    "center occluder = Vec3 0 0 5" "radius2 occluder = 1" "emissionColor occluder = Vec3 0 0 0"
    "center light = Vec3 0 0 10" "radius2 light = 1" "emissionColor light = Vec3 3 3 3"
    by (simp_all add: receiver_def occluder_def light_def new_Sphere_def Vec3f_def zero_vec3_def)
  have hit3: "nearest_loop [receiver, occluder, light] (Vec3 5 0 1) (Vec3 (- 1) 0 0) 0 (PInf, None)
                = (Fin 5, Some 0)"
    by (simp add: receiver_def occluder_def light_def scene_eval vec3_eval)
  have hit2: "nearest_loop [receiver, light] (Vec3 5 0 1) (Vec3 (- 1) 0 0) 0 (PInf, None)
                = (Fin 5, Some 0)"
    by (simp add: receiver_def light_def scene_eval vec3_eval)
  have sum3: "diffuse_sum [receiver, occluder, light] receiver (Vec3 0 0 1) (Vec3 0 0 1) (1 / 10000)
                = Vec3 0 0 0"
    by (simp add: diffuse_sum_def is_light_def light_term_def shadowed_def hits_def intersect_def
          fields vec3_eval sqrt_81 upt_rec Let_def Ex_less_Suc)
  have sum2: "diffuse_sum [receiver, light] receiver (Vec3 0 0 1) (Vec3 0 0 1) (1 / 10000)
                = Vec3 3 3 3"
    by (simp add: diffuse_sum_def is_light_def light_term_def shadowed_def hits_def intersect_def
          fields vec3_eval sqrt_81 upt_rec Let_def Ex_less_Suc)
  have t3: "trace (Vec3 5 0 1) (Vec3 (- 1) 0 0) [receiver, occluder, light] 0 = Inr (Vec3 0 0 0)"
    using diffuse_shading [OF hit3, of 0]
    by (simp add: fields vec3_eval sum3)
  have t2: "trace (Vec3 5 0 1) (Vec3 (- 1) 0 0) [receiver, light] 0 = Inr (Vec3 3 3 3)"
    using diffuse_shading [OF hit2, of 0]
    by (simp add: fields vec3_eval sum2)
  from t3 t2 show ?thesis
    by (simp add: receiver_def occluder_def light_def)
qed

text \<open>
  C6 as the specification states it, with the sum over the lights other than the
  hit sphere, fails for a ray that starts inside a diffuse sphere that is itself a
  light: the sphere lights its own inner surface. The ray from the centre of the only
  sphere of the scene reaches it at \<open>(0, 0, 1)\<close> with the normal \<open>(0, 0, -1)\<close>; the
  surface colour of the program is \<open>(3, 3, 3)\<close>, the sum over the other lights is zero.
\<close>

theorem diffuse_other_counterexample:
  "light_loop [new_Sphere (Vec3 0 0 0) 1 (Vec3f 1) 0 0 (Vec3f 3)]
     (new_Sphere (Vec3 0 0 0) 1 (Vec3f 1) 0 0 (Vec3f 3)) (Vec3 0 0 1) (Vec3 0 0 (- 1))
     (1 / 10000) 0 0 \<noteq>
   diffuse_sum_others [new_Sphere (Vec3 0 0 0) 1 (Vec3f 1) 0 0 (Vec3f 3)] 0
     (new_Sphere (Vec3 0 0 0) 1 (Vec3f 1) 0 0 (Vec3f 3)) (Vec3 0 0 1) (Vec3 0 0 (- 1))
     (1 / 10000) \<and>
   trace (Vec3 0 0 0) (Vec3 0 0 1) [new_Sphere (Vec3 0 0 0) 1 (Vec3f 1) 0 0 (Vec3f 3)] 0
     = Inr (Vec3 6 6 6) \<and>
   nearest_loop [new_Sphere (Vec3 0 0 0) 1 (Vec3f 1) 0 0 (Vec3f 3)] (Vec3 0 0 0) (Vec3 0 0 1) 0
     (PInf, None) = (Fin 1, Some 0) \<and>
   light_loop [new_Sphere (Vec3 0 0 0) 1 (Vec3f 1) 0 0 (Vec3f 3)]
     (new_Sphere (Vec3 0 0 0) 1 (Vec3f 1) 0 0 (Vec3f 3)) (Vec3 0 0 1) (Vec3 0 0 (- 1))
     (1 / 10000) 0 0 = Vec3 3 3 3 \<and>
   diffuse_sum_others [new_Sphere (Vec3 0 0 0) 1 (Vec3f 1) 0 0 (Vec3f 3)] 0
     (new_Sphere (Vec3 0 0 0) 1 (Vec3f 1) 0 0 (Vec3f 3)) (Vec3 0 0 1) (Vec3 0 0 (- 1))
     (1 / 10000) = Vec3 0 0 0"
proof -
  define lamp where "lamp = new_Sphere (Vec3 0 0 0) 1 (Vec3f 1) 0 0 (Vec3f 3)"
  have fields:
    "center lamp = Vec3 0 0 0" "radius2 lamp = 1" "surfaceColor lamp = Vec3 1 1 1"
    "emissionColor lamp = Vec3 3 3 3" "transparency lamp = 0" "reflection lamp = 0"
    by (simp_all add: lamp_def new_Sphere_def Vec3f_def)
  have hit: "nearest_loop [lamp] (Vec3 0 0 0) (Vec3 0 0 1) 0 (PInf, None) = (Fin 1, Some 0)"
    by (simp add: lamp_def scene_eval vec3_eval)
  have lit: "light_loop [lamp] lamp (Vec3 0 0 1) (Vec3 0 0 (- 1)) (1 / 10000) 0 (Vec3 0 0 0)
               = Vec3 3 3 3"
    by (simp add: light_eval fields vec3_eval)
  have tr: "trace (Vec3 0 0 0) (Vec3 0 0 1) [lamp] 0 = Inr (Vec3 6 6 6)"
    using trace_diffuse [OF hit, of 0]
    by (simp add: MAX_RAY_DEPTH_def fields vec3_eval lit)
  have others: "diffuse_sum_others [lamp] 0 lamp (Vec3 0 0 1) (Vec3 0 0 (- 1)) (1 / 10000)
                  = Vec3 0 0 0"
    by (simp add: diffuse_sum_others_def zero_vec3_def)
  from tr hit lit others show ?thesis
    by (simp add: lamp_def zero_vec3_def)
qed

section \<open>Emission\<close>

lemma light_term_black:
  "surfaceColor hitsphere = 0 \<Longrightarrow> light_term spheres hitsphere phit nhit bias i = 0"
  by (simp add: light_term_def Let_def smul_def times_vec3_def zero_vec3_def)

lemma light_loop_black:
  "surfaceColor hitsphere = 0 \<Longrightarrow>
   light_loop spheres hitsphere phit nhit bias i surfCol = surfCol"
  by (simp add: light_loop_sum light_term_black)

text \<open>
  C7. In both shading branches \<^verbatim>\<open>trace\<close> returns the shading result plus the emission
  colour of the hit sphere: the sum of the diffuse loop in the diffuse branch, and in
  the specular branch the mix of the colours that the recursive calls return. A ray
  that hits a sphere with the emission colour \<open>(5, 5, 5)\<close> whose surface colour,
  transparency and reflection are zero returns exactly \<open>(5, 5, 5)\<close>, in every scene.
\<close>

theorem emission_added:
  fixes rayorig raydir spheres depth tn si reflCol refrCol
  defines "sphere \<equiv> spheres ! si"
  defines "bias \<equiv> 1 / 10000"
  defines "phit \<equiv> rayorig + smul raydir tn"
  defines "n \<equiv> normalize_vec (phit - center sphere)"
  defines "inside \<equiv> dot raydir n > 0"
  defines "nhit \<equiv> (if inside then - n else n)"
  defines "fresnel \<equiv> mix ((1 - (- dot raydir nhit)) ^ 3) 1 (1 / 10)"
  defines "refldir \<equiv> normalize_vec (raydir - smul (smul nhit 2) (dot raydir nhit))"
  defines "eta \<equiv> (if inside then 11 / 10 else 1 / (11 / 10))"
  defines "cosi \<equiv> - dot nhit raydir"
  defines "k \<equiv> 1 - eta * eta * (1 - cosi * cosi)"
  defines "refrdir \<equiv> normalize_vec (smul raydir eta + smul nhit (eta * cosi - sqrt k))"
  defines "specular \<equiv> (transparency sphere > 0 \<or> reflection sphere > 0) \<and> depth < 5"
  assumes hit: "nearest_loop spheres rayorig raydir 0 (PInf, None) = (Fin tn, Some si)"
  shows
    "(\<not> specular \<longrightarrow>
        trace rayorig raydir spheres depth =
          Inr (light_loop spheres sphere phit nhit bias 0 0 + emissionColor sphere)) \<and>
     (specular \<and>
      trace (phit + smul nhit bias) refldir spheres (depth + 1) = Inr reflCol \<and>
      (if transparency sphere \<noteq> 0
       then 0 \<le> k \<and> trace (phit - smul nhit bias) refrdir spheres (depth + 1) = Inr refrCol
       else refrCol = 0) \<longrightarrow>
        trace rayorig raydir spheres depth =
          Inr ((smul reflCol fresnel + smul (smul refrCol (1 - fresnel)) (transparency sphere)) *
               surfaceColor sphere + emissionColor sphere)) \<and>
     (emissionColor sphere = Vec3 5 5 5 \<and> surfaceColor sphere = 0 \<and>
      transparency sphere = 0 \<and> reflection sphere = 0 \<longrightarrow>
        trace rayorig raydir spheres depth = Inr (Vec3 5 5 5))"
proof (intro conjI impI)
  assume "\<not> specular"
  then have "\<not> ((transparency (spheres ! si) > 0 \<or> reflection (spheres ! si) > 0) \<and>
               depth < MAX_RAY_DEPTH)"
    by (simp add: specular_def sphere_def MAX_RAY_DEPTH_def)
  from trace_diffuse [OF hit this]
  show "trace rayorig raydir spheres depth =
          Inr (light_loop spheres sphere phit nhit bias 0 0 + emissionColor sphere)"
    unfolding sphere_def bias_def phit_def n_def inside_def nhit_def .
next
  assume h: "specular \<and>
      trace (phit + smul nhit bias) refldir spheres (depth + 1) = Inr reflCol \<and>
      (if transparency sphere \<noteq> 0
       then 0 \<le> k \<and> trace (phit - smul nhit bias) refrdir spheres (depth + 1) = Inr refrCol
       else refrCol = 0)"
  then have br: "(transparency (spheres ! si) > 0 \<or> reflection (spheres ! si) > 0) \<and>
                 depth < MAX_RAY_DEPTH"
    by (simp add: specular_def sphere_def MAX_RAY_DEPTH_def)
  from h have refl: "trace (phit + smul nhit bias) refldir spheres (depth + 1) = Inr reflCol"
    by simp
  from h have refr:
    "(if transparency sphere \<noteq> 0
      then (if k < 0 then Inl SqrtOfNegative
            else trace (phit - smul nhit bias) refrdir spheres (depth + 1))
      else Inr 0) = Inr refrCol"
    by (cases "transparency sphere = 0") (auto simp: zero_vec3_def)
  show "trace rayorig raydir spheres depth =
          Inr ((smul reflCol fresnel + smul (smul refrCol (1 - fresnel)) (transparency sphere)) *
               surfaceColor sphere + emissionColor sphere)"
    using refl refr
    unfolding sphere_def bias_def phit_def n_def inside_def nhit_def fresnel_def refldir_def
      eta_def cosi_def k_def refrdir_def
    by (simp only: trace_specular [OF hit br] sum.case)
next
  assume h: "emissionColor sphere = Vec3 5 5 5 \<and> surfaceColor sphere = 0 \<and>
      transparency sphere = 0 \<and> reflection sphere = 0"
  then have "\<not> ((transparency (spheres ! si) > 0 \<or> reflection (spheres ! si) > 0) \<and>
               depth < MAX_RAY_DEPTH)"
    by (simp add: sphere_def)
  from trace_diffuse [OF hit this] h
  show "trace rayorig raydir spheres depth = Inr (Vec3 5 5 5)"
    by (simp add: sphere_def light_loop_black)
qed

theorem emission_added_witness:
  "nearest_loop main_spheres (Vec3 0 20 0) (Vec3 0 0 (- 1)) 0 (PInf, None) = (Fin 27, Some 5) \<and>
   trace (Vec3 0 20 0) (Vec3 0 0 (- 1)) main_spheres 0 = Inr (Vec3 5 5 5)"
proof -
  have hit: "nearest_loop main_spheres (Vec3 0 20 0) (Vec3 0 0 (- 1)) 0 (PInf, None)
               = (Fin 27, Some 5)"
    by (simp add: main_spheres_def scene_eval vec3_eval sqrt_9)
  have light:
    "emissionColor (main_spheres ! 5) = Vec3 5 5 5" "surfaceColor (main_spheres ! 5) = 0"
    "transparency (main_spheres ! 5) = 0" "reflection (main_spheres ! 5) = 0"
    by (simp_all add: main_spheres_def new_Sphere_def Vec3f_def zero_vec3_def)
  have "trace (Vec3 0 20 0) (Vec3 0 0 (- 1)) main_spheres 0 = Inr (Vec3 5 5 5)"
    using emission_added [OF hit, of 0] light by blast
  with hit show ?thesis by simp
qed

section \<open>Errors of the model\<close>

lemma trace_deep_ok:
  assumes "MAX_RAY_DEPTH \<le> depth"
  shows "\<exists>c. trace rayorig raydir spheres depth = Inr c"
proof (cases "nearest_loop spheres rayorig raydir 0 (PInf, None)")
  case (Pair tnear sp)
  show ?thesis
  proof (cases sp)
    case None
    with Pair show ?thesis by (simp add: trace_miss)
  next
    case (Some si)
    with Pair nearest_selected_finite [of spheres rayorig raydir tnear si]
    obtain tn where "nearest_loop spheres rayorig raydir 0 (PInf, None) = (Fin tn, Some si)"
      by auto
    moreover from assms
    have "\<not> ((transparency (spheres ! si) > 0 \<or> reflection (spheres ! si) > 0) \<and>
              depth < MAX_RAY_DEPTH)" by simp
    ultimately show ?thesis by (simp add: trace_diffuse)
  qed
qed

lemma sum_case2_not_Inl:
  "A \<noteq> Inl x \<Longrightarrow> B \<noteq> Inl x \<Longrightarrow>
   (case A of Inl e \<Rightarrow> Inl e
    | Inr r \<Rightarrow> (case B of Inl e \<Rightarrow> Inl e | Inr f \<Rightarrow> Inr (g r f))) \<noteq> Inl x"
  by (cases A; cases B) auto

lemma trace_not_InfiniteDistance:
  "trace rayorig raydir spheres depth \<noteq> Inl InfiniteDistance"
proof (induction "nat (MAX_RAY_DEPTH - depth)" arbitrary: rayorig raydir depth rule: less_induct)
  case less
  show ?case
  proof (cases "nearest_loop spheres rayorig raydir 0 (PInf, None)")
    case (Pair tnear sp)
    show ?thesis
    proof (cases sp)
      case None
      with Pair show ?thesis by (simp add: trace_miss)
    next
      case (Some si)
      with Pair nearest_selected_finite [of spheres rayorig raydir tnear si]
      obtain tn where hit: "nearest_loop spheres rayorig raydir 0 (PInf, None) = (Fin tn, Some si)"
        by auto
      show ?thesis
      proof (cases "(transparency (spheres ! si) > 0 \<or> reflection (spheres ! si) > 0) \<and>
                    depth < MAX_RAY_DEPTH")
        case False
        with hit show ?thesis by (simp add: trace_diffuse)
      next
        case True
        then have "nat (MAX_RAY_DEPTH - (depth + 1)) < nat (MAX_RAY_DEPTH - depth)"
          by simp
        then have deeper: "trace p d spheres (depth + 1) \<noteq> Inl InfiniteDistance" for p d
          by (rule less)
        show ?thesis
          unfolding trace_specular [OF hit True]
          by (rule sum_case2_not_Inl) (simp_all add: deeper)
      qed
    qed
  qed
qed

section \<open>Total internal reflection\<close>

lemma nearest_loop_single_hit:
  assumes "hits s rayorig raydir"
  shows "\<exists>tn. nearest_loop [s] rayorig raydir 0 (PInf, None) = (Fin tn, Some 0)"
proof (cases "nearest_loop [s] rayorig raydir 0 (PInf, None)")
  case (Pair tnear sp)
  have inv: "nearest_inv [s] rayorig raydir (length [s]) (tnear, sp)"
    using nearest_inv_result [of "[s]" rayorig raydir] by (simp add: Pair)
  show ?thesis
  proof (cases sp)
    case None
    with inv assms show ?thesis by (auto simp: nearest_inv_def)
  next
    case (Some k)
    with inv show ?thesis by (auto simp: Pair nearest_inv_def)
  qed
qed

lemma tir_fields:
  "center glass_ball = Vec3 0 0 0" "radius2 glass_ball = 169"
  "surfaceColor glass_ball = Vec3 1 1 1" "emissionColor glass_ball = Vec3 0 0 0"
  "transparency glass_ball = 1 / 2" "reflection glass_ball = 0"
  by (simp_all add: glass_ball_def new_Sphere_def Vec3f_def zero_vec3_def)

lemma tir_hit:
  "nearest_loop [glass_ball] (Vec3 12 0 0) (Vec3 0 1 0) 0 (PInf, None) = (Fin 5, Some 0)"
  by (simp add: nearest_loop_step nearest_loop_done nearest_step_def intersect_def Let_def
        tir_fields vec3_eval sqrt_25)

lemma tir_normal:
  "normalize_vec (Vec3 12 0 0 + smul (Vec3 0 1 0) 5 - center ([glass_ball] ! 0))
   = Vec3 (12 / 13) (5 / 13) 0"
  by (simp add: tir_fields vec3_eval sqrt_169)

lemma tir_inside: "dot (Vec3 0 1 0) (Vec3 (12 / 13) (5 / 13) 0) > 0"
  by (simp add: dot_def)

lemma tir_refldir:
  "normalize_vec
     (Vec3 0 1 0 -
      smul (smul (- Vec3 (12 / 13) (5 / 13) 0) 2) (dot (Vec3 0 1 0) (- Vec3 (12 / 13) (5 / 13) 0)))
   = Vec3 (- (120 / 169)) (119 / 169) 0"
  by (simp add: vec3_eval)

lemma tir_reflorig:
  "Vec3 12 0 0 + smul (Vec3 0 1 0) 5 + smul (- Vec3 (12 / 13) (5 / 13) 0) (1 / 10000)
   = Vec3 (1559988 / 130000) (649995 / 130000) 0"
  by (simp add: vec3_eval)

lemma tir_reflection:
  "trace (Vec3 (1559988 / 130000) (649995 / 130000) 0) (Vec3 (- (120 / 169)) (119 / 169) 0)
     [glass_ball] 5 = Inr (Vec3 0 0 0)"
proof -
  have "hits glass_ball (Vec3 (1559988 / 130000) (649995 / 130000) 0)
          (Vec3 (- (120 / 169)) (119 / 169) 0)"
    by (simp add: hits_def intersect_def Let_def tir_fields vec3_eval)
  from nearest_loop_single_hit [OF this]
  obtain t where hit_refl:
    "nearest_loop [glass_ball] (Vec3 (1559988 / 130000) (649995 / 130000) 0)
       (Vec3 (- (120 / 169)) (119 / 169) 0) 0 (PInf, None) = (Fin t, Some 0)"
    by blast
  have dark: "light_loop [glass_ball] glass_ball p nh (1 / 10000) 0 0 = 0" for p nh
    by (simp add: light_loop_skip light_loop_done tir_fields)
  show ?thesis
    using trace_diffuse [OF hit_refl, of 5]
    by (simp add: MAX_RAY_DEPTH_def dark) (simp add: tir_fields vec3_eval)
qed

lemma tir_k:
  "1 - 11 / 10 * (11 / 10) *
     (1 - - dot (- Vec3 (12 / 13) (5 / 13) 0) (Vec3 0 1 0) *
          - dot (- Vec3 (12 / 13) (5 / 13) 0) (Vec3 0 1 0)) = - (131 / 4225 :: real)"
  by (simp add: dot_def uminus_vec3_def)

lemma tir_trace:
  "trace (Vec3 12 0 0) (Vec3 0 1 0) [glass_ball] 4 = Inl SqrtOfNegative"
proof -
  have br: "(transparency ([glass_ball] ! 0) > 0 \<or> reflection ([glass_ball] ! 0) > 0) \<and>
            (4 :: int) < MAX_RAY_DEPTH"
    by (simp add: tir_fields MAX_RAY_DEPTH_def)
  have refl4: "trace (Vec3 (1559988 / 130000) (649995 / 130000) 0)
                (Vec3 (- (120 / 169)) (119 / 169) 0) [glass_ball] (4 + 1) = Inr (Vec3 0 0 0)"
    using tir_reflection by simp
  show ?thesis
    by (simp only: trace_specular [OF tir_hit br] tir_normal tir_inside if_True tir_refldir
          tir_reflorig refl4 sum.case tir_k)
       (simp add: tir_fields)
qed

text \<open>
  C8. The refraction step applies \<^verbatim>\<open>sqrt\<close> to \<open>k = 1 - eta\<^sup>2 * (1 - cosi\<^sup>2)\<close> with no
  guard against \<open>k < 0\<close>. For every input that reaches the step (a hit on a sphere whose
  transparency is not zero, in the specular branch, where the reflection call has
  returned a colour), the only thing that decides what \<open>trace\<close> does is the sign of
  \<open>k\<close>: where \<open>k \<ge> 0\<close> the refraction ray is traced along the direction built from
  \<open>sqrt k\<close>, and where \<open>k < 0\<close> the result is \<open>SqrtOfNegative\<close>, the square root of a
  negative number, which the program takes at line 123; no branch leaves the refraction
  out. Such an input exists: a ray inside a transparent sphere of radius 13 that starts
  at \<open>(12, 0, 0)\<close> toward \<open>(0, 1, 0)\<close> at depth 4 reaches the sphere at \<open>(12, 5, 0)\<close> from
  inside, so \<open>eta = 1.1\<close> and \<open>cosi = 5 / 13\<close>; its reflection call returns a colour,
  and the refraction step is reached with \<open>k = - 131 / 4225 < 0\<close>.
\<close>

theorem refraction_sqrt_unguarded:
  fixes rayorig raydir spheres depth tn si reflCol
  defines "sphere \<equiv> spheres ! si"
  defines "bias \<equiv> 1 / 10000"
  defines "phit \<equiv> rayorig + smul raydir tn"
  defines "n \<equiv> normalize_vec (phit - center sphere)"
  defines "inside \<equiv> dot raydir n > 0"
  defines "nhit \<equiv> (if inside then - n else n)"
  defines "fresnel \<equiv> mix ((1 - (- dot raydir nhit)) ^ 3) 1 (1 / 10)"
  defines "refldir \<equiv> normalize_vec (raydir - smul (smul nhit 2) (dot raydir nhit))"
  defines "eta \<equiv> (if inside then 11 / 10 else 1 / (11 / 10))"
  defines "cosi \<equiv> - dot nhit raydir"
  defines "k \<equiv> 1 - eta * eta * (1 - cosi * cosi)"
  shows
    "(nearest_loop spheres rayorig raydir 0 (PInf, None) = (Fin tn, Some si) \<and>
      (transparency sphere > 0 \<or> reflection sphere > 0) \<and> depth < 5 \<and>
      transparency sphere \<noteq> 0 \<and>
      trace (phit + smul nhit bias) refldir spheres (depth + 1) = Inr reflCol \<longrightarrow>
        trace rayorig raydir spheres depth =
          (if k < 0 then Inl SqrtOfNegative
           else
             case trace (phit - smul nhit bias)
                    (normalize_vec (smul raydir eta + smul nhit (eta * cosi - sqrt k)))
                    spheres (depth + 1) of
               Inl e \<Rightarrow> Inl e
             | Inr refrCol \<Rightarrow>
                 Inr ((smul reflCol fresnel +
                       smul (smul refrCol (1 - fresnel)) (transparency sphere)) *
                      surfaceColor sphere + emissionColor sphere))) \<and>
     (let spheres = [new_Sphere (Vec3 0 0 0) 13 (Vec3f 1) 0 (1 / 2) 0];
          rayorig = Vec3 12 0 0;
          raydir = Vec3 0 1 0;
          phit = rayorig + smul raydir 5;
          n = normalize_vec (phit - center (spheres ! 0));
          nhit = - n;
          refldir = normalize_vec (raydir - smul (smul nhit 2) (dot raydir nhit));
          eta = 11 / 10;
          cosi = - dot nhit raydir;
          k = 1 - eta * eta * (1 - cosi * cosi)
      in nearest_loop spheres rayorig raydir 0 (PInf, None) = (Fin 5, Some 0) \<and>
         dot raydir n > 0 \<and>
         transparency (spheres ! 0) > 0 \<and>
         4 < MAX_RAY_DEPTH \<and>
         trace (phit + smul nhit (1 / 10000)) refldir spheres 5 = Inr (Vec3 0 0 0) \<and>
         k = - (131 / 4225) \<and>
         k < 0 \<and>
         trace rayorig raydir spheres 4 = Inl SqrtOfNegative)"
proof (rule conjI)
  show "nearest_loop spheres rayorig raydir 0 (PInf, None) = (Fin tn, Some si) \<and>
      (transparency sphere > 0 \<or> reflection sphere > 0) \<and> depth < 5 \<and>
      transparency sphere \<noteq> 0 \<and>
      trace (phit + smul nhit bias) refldir spheres (depth + 1) = Inr reflCol \<longrightarrow>
        trace rayorig raydir spheres depth =
          (if k < 0 then Inl SqrtOfNegative
           else
             case trace (phit - smul nhit bias)
                    (normalize_vec (smul raydir eta + smul nhit (eta * cosi - sqrt k)))
                    spheres (depth + 1) of
               Inl e \<Rightarrow> Inl e
             | Inr refrCol \<Rightarrow>
                 Inr ((smul reflCol fresnel +
                       smul (smul refrCol (1 - fresnel)) (transparency sphere)) *
                      surfaceColor sphere + emissionColor sphere))"
  proof (intro impI, elim conjE)
    assume hit: "nearest_loop spheres rayorig raydir 0 (PInf, None) = (Fin tn, Some si)"
      and sp: "transparency sphere > 0 \<or> reflection sphere > 0"
      and d: "depth < 5"
      and tr: "transparency sphere \<noteq> 0"
      and refl: "trace (phit + smul nhit bias) refldir spheres (depth + 1) = Inr reflCol"
    have br: "(transparency (spheres ! si) > 0 \<or> reflection (spheres ! si) > 0) \<and>
              depth < MAX_RAY_DEPTH"
      using sp d by (simp add: sphere_def MAX_RAY_DEPTH_def)
    note tr' = tr [unfolded sphere_def]
    note refl' = refl [unfolded sphere_def bias_def phit_def n_def inside_def nhit_def refldir_def]
    show "trace rayorig raydir spheres depth =
          (if k < 0 then Inl SqrtOfNegative
           else
             case trace (phit - smul nhit bias)
                    (normalize_vec (smul raydir eta + smul nhit (eta * cosi - sqrt k)))
                    spheres (depth + 1) of
               Inl e \<Rightarrow> Inl e
             | Inr refrCol \<Rightarrow>
                 Inr ((smul reflCol fresnel +
                       smul (smul refrCol (1 - fresnel)) (transparency sphere)) *
                      surfaceColor sphere + emissionColor sphere))"
      unfolding sphere_def bias_def phit_def n_def inside_def nhit_def fresnel_def refldir_def
        eta_def cosi_def k_def
      using tr'
      by (simp only: trace_specular [OF hit br] refl' sum.case if_True if_False simp_thms
            split: if_split) (simp split: sum.splits)
  qed
next
  show "let spheres = [new_Sphere (Vec3 0 0 0) 13 (Vec3f 1) 0 (1 / 2) 0];
          rayorig = Vec3 12 0 0;
          raydir = Vec3 0 1 0;
          phit = rayorig + smul raydir 5;
          n = normalize_vec (phit - center (spheres ! 0));
          nhit = - n;
          refldir = normalize_vec (raydir - smul (smul nhit 2) (dot raydir nhit));
          eta = 11 / 10;
          cosi = - dot nhit raydir;
          k = 1 - eta * eta * (1 - cosi * cosi)
      in nearest_loop spheres rayorig raydir 0 (PInf, None) = (Fin 5, Some 0) \<and>
         dot raydir n > 0 \<and>
         transparency (spheres ! 0) > 0 \<and>
         4 < MAX_RAY_DEPTH \<and>
         trace (phit + smul nhit (1 / 10000)) refldir spheres 5 = Inr (Vec3 0 0 0) \<and>
         k = - (131 / 4225) \<and>
         k < 0 \<and>
         trace rayorig raydir spheres 4 = Inl SqrtOfNegative"
    unfolding Let_def glass_ball_def [symmetric] tir_normal tir_refldir tir_reflorig
  proof (intro conjI)
    show "nearest_loop [glass_ball] (Vec3 12 0 0) (Vec3 0 1 0) 0 (PInf, None) = (Fin 5, Some 0)"
      by (rule tir_hit)
    show "0 < dot (Vec3 0 1 0) (Vec3 (12 / 13) (5 / 13) 0)"
      by (rule tir_inside)
    show "0 < transparency ([glass_ball] ! 0)"
      by (simp add: tir_fields)
    show "4 < MAX_RAY_DEPTH"
      by (simp add: MAX_RAY_DEPTH_def)
    show "trace (Vec3 (1559988 / 130000) (649995 / 130000) 0)
            (Vec3 (- (120 / 169)) (119 / 169) 0) [glass_ball] 5 = Inr (Vec3 0 0 0)"
      by (rule tir_reflection)
    show "1 - 11 / 10 * (11 / 10) *
            (1 - - dot (- Vec3 (12 / 13) (5 / 13) 0) (Vec3 0 1 0) *
                 - dot (- Vec3 (12 / 13) (5 / 13) 0) (Vec3 0 1 0)) = - (131 / 4225 :: real)"
      by (rule tir_k)
    show "1 - 11 / 10 * (11 / 10) *
            (1 - - dot (- Vec3 (12 / 13) (5 / 13) 0) (Vec3 0 1 0) *
                 - dot (- Vec3 (12 / 13) (5 / 13) 0) (Vec3 0 1 0)) < (0 :: real)"
      unfolding tir_k by simp
    show "trace (Vec3 12 0 0) (Vec3 0 1 0) [glass_ball] 4 = Inl SqrtOfNegative"
      by (rule tir_trace)
  qed
qed

theorem refraction_sqrt_unguarded_witness:
  "trace (Vec3 12 0 0) (Vec3 0 1 0) [new_Sphere (Vec3 0 0 0) 13 (Vec3f 1) 0 (1 / 2) 0] 4
     = Inl SqrtOfNegative \<and>
   trace (Vec3 0 0 5) (Vec3 0 0 (- 1)) [new_Sphere (Vec3 0 0 0) 1 (Vec3f 1) 0 (1 / 2) (Vec3f 1)] 4
     = Inr (Vec3 (21 / 10) (21 / 10) (21 / 10))"
proof -
  have refl4: "trace (Vec3 (1559988 / 130000) (649995 / 130000) 0)
                (Vec3 (- (120 / 169)) (119 / 169) 0) [glass_ball] (4 + 1) = Inr (Vec3 0 0 0)"
    using tir_reflection by simp
  note step = refraction_sqrt_unguarded
      [where spheres = "[glass_ball]" and rayorig = "Vec3 12 0 0" and raydir = "Vec3 0 1 0"
         and tn = 5 and si = 0 and depth = 4 and reflCol = "Vec3 0 0 0", THEN conjunct1]
  have tir: "trace (Vec3 12 0 0) (Vec3 0 1 0) [glass_ball] 4 = Inl SqrtOfNegative"
    using step
    by (simp only: tir_hit tir_normal tir_inside if_True tir_refldir tir_reflorig refl4 tir_k)
       (simp add: tir_fields)
  define glow where "glow = new_Sphere (Vec3 0 0 0) 1 (Vec3f 1) 0 (1 / 2) (Vec3f 1)"
  have fields:
    "center glow = Vec3 0 0 0" "radius2 glow = 1" "surfaceColor glow = Vec3 1 1 1"
    "emissionColor glow = Vec3 1 1 1" "transparency glow = 1 / 2" "reflection glow = 0"
    by (simp_all add: glow_def new_Sphere_def Vec3f_def)
  have hit: "nearest_loop [glow] (Vec3 0 0 5) (Vec3 0 0 (- 1)) 0 (PInf, None) = (Fin 4, Some 0)"
    by (simp add: glow_def scene_eval vec3_eval)
  have refl: "trace (Vec3 0 0 (10001 / 10000)) (Vec3 0 0 1) [glow] 5 = Inr (Vec3 2 2 2)"
    by (simp add: trace_miss glow_def scene_eval vec3_eval)
  have hit_in: "nearest_loop [glow] (Vec3 0 0 (9999 / 10000)) (Vec3 0 0 (- 1)) 0 (PInf, None)
                  = (Fin (19999 / 10000), Some 0)"
    by (simp add: glow_def scene_eval vec3_eval)
  have lit: "light_loop [glow] glow (Vec3 0 0 (- 1)) (Vec3 0 0 1) (1 / 10000) 0 (Vec3 0 0 0)
               = Vec3 1 1 1"
    by (simp add: light_eval fields vec3_eval)
  have refr: "trace (Vec3 0 0 (9999 / 10000)) (Vec3 0 0 (- 1)) [glow] 5 = Inr (Vec3 2 2 2)"
    using trace_diffuse [OF hit_in, of 5]
    by (simp add: MAX_RAY_DEPTH_def fields vec3_eval lit)
  have ok: "trace (Vec3 0 0 5) (Vec3 0 0 (- 1)) [glow] 4 = Inr (Vec3 (21 / 10) (21 / 10) (21 / 10))"
    using refraction_sqrt_unguarded
      [where spheres = "[glow]" and rayorig = "Vec3 0 0 5" and raydir = "Vec3 0 0 (- 1)"
         and tn = 4 and si = 0 and depth = 4 and reflCol = "Vec3 2 2 2", THEN conjunct1]
      hit refl refr
    by (simp add: fields vec3_eval mix_def)
  from tir ok show ?thesis by (simp add: glass_ball_def glow_def)
qed

end
